theory Spec2Isabelle
  imports Main "HOL-Library.Multiset" "HOL-Library.Char_ord" "HOL-Library.List_Lexorder"
begin

section \<open>Python values and exceptions\<close>

text \<open>
  The dispatcher is a Python program. Exceptions are values of the type \<open>error\<close>; a
  function that can raise returns \<open>error + 'a\<close> with \<open>Inl\<close> for the exception.
  \<open>BaseException\<close> and \<open>SystemExit\<close> are the two exceptions of the program that an
  \<^verbatim>\<open>except Exception\<close> clause does not catch.
\<close>

datatype error =
    KeyError string
  | IndexError
  | TypeError
  | AttributeError
  | ValueError string
  | NameError string
  | JSONDecodeError
  | ValidationError string
  | OSError
  | CalledProcessError int string
  | NotImplementedError string
  | BaseException string
  | SystemExit int

fun is_Exception :: "error \<Rightarrow> bool" where
  "is_Exception (BaseException m) = False"
| "is_Exception (SystemExit c) = False"
| "is_Exception e = True"

section \<open>Strings\<close>

text \<open>
  A Python \<^verbatim>\<open>str\<close> is a \<open>string\<close>, one \<open>char\<close> per code point; the model covers
  code points below 256, and \<^verbatim>\<open>casefold\<close> is translated for ASCII only.
\<close>

definition is_ascii :: "string \<Rightarrow> bool" where
  "is_ascii s = list_all (\<lambda>c. of_char c < (128::nat)) s"

text \<open>\<^verbatim>\<open>s.startswith(p)\<close> and \<^verbatim>\<open>p in s\<close> for strings.\<close>

fun startswith :: "string \<Rightarrow> string \<Rightarrow> bool" where
  "startswith s [] = True"
| "startswith [] (p # ps) = False"
| "startswith (c # cs) (p # ps) = (c = p \<and> startswith cs ps)"

fun str_contains :: "string \<Rightarrow> string \<Rightarrow> bool" where
  "str_contains p [] = (p = [])"
| "str_contains p (c # cs) = (startswith (c # cs) p \<or> str_contains p cs)"

text \<open>\<^verbatim>\<open>s.split(sep)\<close> for a separator of one character: never an empty list.\<close>

fun split_on :: "char \<Rightarrow> string \<Rightarrow> string list" where
  "split_on sep [] = [[]]"
| "split_on sep (c # cs) =
     (if c = sep then [] # split_on sep cs
      else (case split_on sep cs of
              [] \<Rightarrow> [[c]]
            | piece # pieces \<Rightarrow> (c # piece) # pieces))"

text \<open>\<^verbatim>\<open>sep.join(items)\<close>.\<close>

fun join :: "string \<Rightarrow> string list \<Rightarrow> string" where
  "join sep [] = []"
| "join sep [x] = x"
| "join sep (x # y # ys) = x @ sep @ join sep (y # ys)"

text \<open>\<^verbatim>\<open>s.replace(c, "")\<close> for a single character \<open>c\<close>.\<close>

definition remove_char :: "char \<Rightarrow> string \<Rightarrow> string" where
  "remove_char c s = filter (\<lambda>x. x \<noteq> c) s"

text \<open>\<^verbatim>\<open>s.replace(old, "")\<close> for a non-empty \<open>old\<close>: occurrences are dropped from the left.\<close>

fun remove_all :: "string \<Rightarrow> string \<Rightarrow> string" where
  "remove_all old [] = []"
| "remove_all old (c # cs) =
     (if old \<noteq> [] \<and> startswith (c # cs) old
      then remove_all old (drop (length old - 1) cs)
      else c # remove_all old cs)"

definition casefold_char :: "char \<Rightarrow> char" where
  "casefold_char c =
     (let n = (of_char c :: nat) in if 65 \<le> n \<and> n \<le> 90 then char_of (n + 32) else c)"

definition casefold :: "string \<Rightarrow> string" where
  "casefold s = map casefold_char s"

subsection \<open>Numbers as text\<close>

definition digit_char :: "nat \<Rightarrow> char" where
  "digit_char d = (if d < 16 then ''0123456789abcdef'' ! d else CHR ''?'')"

fun digits_of :: "nat \<Rightarrow> nat \<Rightarrow> string" where
  "digits_of base n =
     (if base < 2 \<or> n < base then [digit_char n]
      else digits_of base (n div base) @ [digit_char (n mod base)])"

declare digits_of.simps [simp del]

text \<open>\<^verbatim>\<open>str(n)\<close> and \<^verbatim>\<open>hex(n)\<close> of a Python int.\<close>

definition str_int :: "int \<Rightarrow> string" where
  "str_int n = (if n < 0 then CHR ''-'' # digits_of 10 (nat (- n)) else digits_of 10 (nat n))"

definition hex :: "int \<Rightarrow> string" where
  "hex n = (if n < 0 then ''-0x'' @ digits_of 16 (nat (- n)) else ''0x'' @ digits_of 16 (nat n))"

text \<open>
  \<^verbatim>\<open>int(s)\<close> in base ten: white space around the number is dropped, one sign is allowed,
  and single underscores may separate digits. Anything else raises \<^verbatim>\<open>ValueError\<close>.
\<close>

definition is_space :: "char \<Rightarrow> bool" where
  "is_space c =
     (let n = (of_char c :: nat) in (9 \<le> n \<and> n \<le> 13) \<or> (28 \<le> n \<and> n \<le> 32) \<or> n = 133 \<or> n = 160)"

definition is_digit :: "char \<Rightarrow> bool" where
  "is_digit c = (let n = (of_char c :: nat) in 48 \<le> n \<and> n \<le> 57)"

definition strip :: "string \<Rightarrow> string" where
  "strip s = rev (dropWhile is_space (rev (dropWhile is_space s)))"

fun digits_value :: "string \<Rightarrow> nat \<Rightarrow> bool \<Rightarrow> nat option" where
  "digits_value [] acc after_digit = (if after_digit then Some acc else None)"
| "digits_value (c # cs) acc after_digit =
     (if is_digit c then digits_value cs (acc * 10 + (of_char c - 48)) True
      else if c = CHR ''_'' \<and> after_digit then digits_value cs acc False
      else None)"

definition py_int :: "string \<Rightarrow> error + int" where
  "py_int s =
     (let t = strip s;
          (negative, body) =
            (case t of
               [] \<Rightarrow> (False, [])
             | c # cs \<Rightarrow> if c = CHR ''-'' then (True, cs)
                         else if c = CHR ''+'' then (False, cs) else (False, t))
      in case digits_value body 0 False of
           None \<Rightarrow> Inl (ValueError s)
         | Some n \<Rightarrow> Inr (if negative then - int n else int n))"

subsection \<open>The \<^verbatim>\<open>repr\<close> of a string\<close>

text \<open>
  \<^verbatim>\<open>repr(s)\<close> quotes with a single quote unless the string holds a single quote and no
  double quote; it escapes the quote in use, the backslash, tab, newline, carriage return
  and every code point that is not printable.
\<close>

definition printable :: "char \<Rightarrow> bool" where
  "printable c =
     (let n = (of_char c :: nat) in (32 \<le> n \<and> n < 127) \<or> (161 \<le> n \<and> n \<noteq> 173))"

definition hex2 :: "char \<Rightarrow> string" where
  "hex2 c = (let n = (of_char c :: nat) in [digit_char (n div 16), digit_char (n mod 16)])"

definition repr_char :: "char \<Rightarrow> char \<Rightarrow> string" where
  "repr_char quote c =
     (if c = quote \<or> c = CHR 0x5C then [CHR 0x5C, c]
      else if c = CHR 0x09 then [CHR 0x5C, CHR ''t'']
      else if c = CHR 0x0A then [CHR 0x5C, CHR ''n'']
      else if c = CHR 0x0D then [CHR 0x5C, CHR ''r'']
      else if printable c then [c]
      else [CHR 0x5C, CHR ''x''] @ hex2 c)"

definition repr_str :: "string \<Rightarrow> string" where
  "repr_str s =
     (let quote = (if CHR 0x27 \<in> set s \<and> CHR 0x22 \<notin> set s then CHR 0x22 else CHR 0x27)
      in quote # concat (map (repr_char quote) s) @ [quote])"

text \<open>\<^verbatim>\<open>str(xs)\<close> of a list of strings, as in \<^verbatim>\<open>str(sys.argv[1:])\<close>.\<close>

definition str_list :: "string list \<Rightarrow> string" where
  "str_list xs = ''['' @ join '', '' (map repr_str xs) @ '']''"

section \<open>JSON documents\<close>

text \<open>
  What \<^verbatim>\<open>json.load\<close> returns. A dictionary keeps its insertion order, so it is an
  association list; assigning to a key that is present replaces the value in place, and a
  new key goes to the end. Numbers are Python ints: the program never computes with a
  float, and floats are left out of the model.
\<close>

datatype json =
    JNull
  | JBool bool
  | JInt int
  | JStr string
  | JList "json list"
  | JDict "(string \<times> json) list"

fun dict_set :: "(string \<times> json) list \<Rightarrow> string \<Rightarrow> json \<Rightarrow> (string \<times> json) list" where
  "dict_set [] k v = [(k, v)]"
| "dict_set ((k', v') # rest) k v =
     (if k' = k then (k, v) # rest else (k', v') # dict_set rest k v)"

text \<open>\<^verbatim>\<open>d.get(k)\<close> on a dictionary: \<^verbatim>\<open>None\<close> when the key is missing.\<close>

fun dict_get :: "json \<Rightarrow> string \<Rightarrow> error + json" where
  "dict_get (JDict d) k = (case map_of d k of None \<Rightarrow> Inr JNull | Some v \<Rightarrow> Inr v)"
| "dict_get other k = Inl AttributeError"

text \<open>\<^verbatim>\<open>x[k]\<close> with a string key \<open>k\<close>.\<close>

fun getitem :: "json \<Rightarrow> string \<Rightarrow> error + json" where
  "getitem (JDict d) k = (case map_of d k of None \<Rightarrow> Inl (KeyError k) | Some v \<Rightarrow> Inr v)"
| "getitem other k = Inl TypeError"

text \<open>\<^verbatim>\<open>x[i]\<close> with a non-negative integer literal \<open>i\<close>.\<close>

fun getindex :: "json \<Rightarrow> nat \<Rightarrow> error + json" where
  "getindex (JList xs) i = (if i < length xs then Inr (xs ! i) else Inl IndexError)"
| "getindex (JStr s) i = (if i < length s then Inr (JStr [s ! i]) else Inl IndexError)"
| "getindex (JDict d) i = Inl (KeyError (str_int (int i)))"
| "getindex other i = Inl TypeError"

text \<open>\<^verbatim>\<open>x[k] = v\<close> with a string key.\<close>

fun setitem :: "json \<Rightarrow> string \<Rightarrow> json \<Rightarrow> error + json" where
  "setitem (JDict d) k v = Inr (JDict (dict_set d k v))"
| "setitem other k v = Inl TypeError"

fun py_len :: "json \<Rightarrow> error + nat" where
  "py_len (JList xs) = Inr (length xs)"
| "py_len (JStr s) = Inr (length s)"
| "py_len (JDict d) = Inr (length d)"
| "py_len other = Inl TypeError"

text \<open>What a \<^verbatim>\<open>for\<close> loop over the value visits.\<close>

fun py_iter :: "json \<Rightarrow> error + json list" where
  "py_iter (JList xs) = Inr xs"
| "py_iter (JStr s) = Inr (map (\<lambda>c. JStr [c]) s)"
| "py_iter (JDict d) = Inr (map (\<lambda>(k, v). JStr k) d)"
| "py_iter other = Inl TypeError"

fun truthy :: "json \<Rightarrow> bool" where
  "truthy JNull = False"
| "truthy (JBool b) = b"
| "truthy (JInt n) = (n \<noteq> 0)"
| "truthy (JStr s) = (s \<noteq> [])"
| "truthy (JList xs) = (xs \<noteq> [])"
| "truthy (JDict d) = (d \<noteq> [])"

text \<open>\<^verbatim>\<open>repr(x)\<close> and \<^verbatim>\<open>str(x)\<close>; the second is what an f-string inserts.\<close>

fun repr :: "json \<Rightarrow> string" where
  "repr JNull = ''None''"
| "repr (JBool b) = (if b then ''True'' else ''False'')"
| "repr (JInt n) = str_int n"
| "repr (JStr s) = repr_str s"
| "repr (JList xs) = ''['' @ join '', '' (map repr xs) @ '']''"
| "repr (JDict d) =
     ''{'' @ join '', '' (map (\<lambda>kv. repr_str (fst kv) @ '': '' @ repr (snd kv)) d) @ ''}''"

fun py_str :: "json \<Rightarrow> string" where
  "py_str (JStr s) = s"
| "py_str x = repr x"

section \<open>Paths\<close>

text \<open>
  \<^verbatim>\<open>pathlib.Path\<close> on POSIX: a path is its root (empty, one slash, or two slashes when
  the text starts with exactly two) and its components, with empty components and single
  dots dropped. \<^verbatim>\<open>str(Path(s))\<close> is therefore a normal form of \<open>s\<close>, not always \<open>s\<close>.
\<close>

record path =
  root :: string
  parts :: "string list"

definition Path :: "string \<Rightarrow> path" where
  "Path s =
     (let n = length (takeWhile (\<lambda>c. c = CHR ''/'') s)
      in \<lparr>root = (if n = 0 then [] else if n = 2 then ''//'' else ''/''),
          parts = filter (\<lambda>x. x \<noteq> [] \<and> x \<noteq> ''.'') (split_on CHR ''/'' s)\<rparr>)"

definition path_str :: "path \<Rightarrow> string" where
  "path_str p = (let s = root p @ join ''/'' (parts p) in if s = [] then ''.'' else s)"

definition path_name :: "path \<Rightarrow> string" where
  "path_name p = (if parts p = [] then [] else last (parts p))"

fun rfind :: "char \<Rightarrow> string \<Rightarrow> nat option" where
  "rfind c [] = None"
| "rfind c (x # xs) =
     (case rfind c xs of
        Some i \<Rightarrow> Some (Suc i)
      | None \<Rightarrow> if x = c then Some 0 else None)"

definition path_stem :: "path \<Rightarrow> string" where
  "path_stem p =
     (let name = path_name p
      in case rfind CHR ''.'' name of
           None \<Rightarrow> name
         | Some i \<Rightarrow> if 0 < i \<and> i < length name - 1 then take i name else name)"

definition joinpath :: "path \<Rightarrow> string \<Rightarrow> path" where
  "joinpath p child =
     (let c = Path child
      in if root c \<noteq> [] then c else \<lparr>root = root p, parts = parts p @ parts c\<rparr>)"

section \<open>Channel colour mappers\<close>

text \<open>
  Both mappers walk a dictionary literal in insertion order, so the table is an
  association list in the order of the source. The loop variable \<open>hex_val\<close> is still
  bound after the loop, which is what the final \<^verbatim>\<open>return hex_val\<close> reads; with an
  empty table it would be unbound.
\<close>

definition color_map :: "(int \<times> int) list" where
  "color_map =
    [(460, 0x690AFE), (470, 0x3F2EFE), (480, 0x4B90FE), (490, 0x59D5F8), (500, 0x5DF8D6),
     (520, 0x5AFEB8), (540, 0x58FEA1), (560, 0x51FF1E), (565, 0xBBFB01), (575, 0xE9EC02),
     (580, 0xF5C503), (590, 0xF39107), (600, 0xF15211), (620, 0xF0121E), (750, 0xF00050)]"

definition color_map_alternate :: "(int \<times> int) list" where
  "color_map_alternate =
    [(500, 0x61ABFD), (530, 0x92FF42), (540, 0xE4FE41), (560, 0xF3D038), (580, 0xEAB032),
     (600, 0xF15F22), (630, 0xED1C24), (680, 0xC51E1F), (700, 0xA81F1F)]"

text \<open>The loop of \<^verbatim>\<open>wavelength_to_hex\<close>: the comparison is exclusive.\<close>

fun scan_exclusive :: "int \<Rightarrow> (int \<times> int) list \<Rightarrow> int option \<Rightarrow> error + int" where
  "scan_exclusive wavelength [] None = Inl (NameError ''hex_val'')"
| "scan_exclusive wavelength [] (Some hex_val) = Inr hex_val"
| "scan_exclusive wavelength ((ub, hex_val) # rest) prev =
     (if wavelength < ub then Inr hex_val
      else scan_exclusive wavelength rest (Some hex_val))"

definition wavelength_to_hex :: "int \<Rightarrow> error + int" where
  "wavelength_to_hex wavelength = scan_exclusive wavelength color_map None"

text \<open>The loop of \<^verbatim>\<open>wavelength_to_hex_alternate\<close>: the comparison is inclusive.\<close>

fun scan_inclusive :: "int \<Rightarrow> (int \<times> int) list \<Rightarrow> int option \<Rightarrow> error + int" where
  "scan_inclusive wavelength [] None = Inl (NameError ''hex_val'')"
| "scan_inclusive wavelength [] (Some hex_val) = Inr hex_val"
| "scan_inclusive wavelength ((ub, hex_val) # rest) prev =
     (if wavelength \<le> ub then Inr hex_val
      else scan_inclusive wavelength rest (Some hex_val))"

definition wavelength_to_hex_alternate :: "int \<Rightarrow> error + int" where
  "wavelength_to_hex_alternate wavelength = scan_inclusive wavelength color_map_alternate None"

section \<open>The world outside the program\<close>

text \<open>
  What the program reads is an environment \<open>env\<close>: the state of each file name, which
  names are directories, what \<^verbatim>\<open>glob\<close> returns for a pattern (in the order the file
  system lists it), what \<^verbatim>\<open>os.path.abspath\<close> returns, and the exit status of each shell
  command. Two steps belong to the metadata library, which is not part of this
  repository, and are fields of the environment too: the schema validation of a
  provenance fragment (\<^verbatim>\<open>TypeAdapter(Processing).validate_python\<close>), and the derived data
  description that \<^verbatim>\<open>generate_data_description\<close> builds from the raw one and the clock
  (its name, or the exception raised on the way). A data process is a value of the
  library's, of type \<open>'dp\<close>.

  What the program does is a list of effects in the order they happen. A function with
  effects returns its result, or the exception it raised, together with the effects it
  had until then; a file the program writes is never read back in the same run, so the
  environment stays as it is. Opening a file for writing, creating a folder and copying
  a file are assumed to succeed; logging and printing are left out.
\<close>

datatype file_state = Missing | Unreadable | Malformed | Json json

record 'dp pipeline_process =
  data_processes :: "'dp list"
  processor_full_name :: string
  pipeline_version :: string
  pipeline_url :: string

record 'dp processing =
  processing_pipeline :: "'dp pipeline_process"
  "notes" :: string

record 'dp env =
  files :: "string \<Rightarrow> file_state"
  is_dir :: "string \<Rightarrow> bool"
  glob :: "string \<Rightarrow> string list"
  abspath :: "string \<Rightarrow> string"
  returncode :: "string \<Rightarrow> int"
  validate_python :: "json \<Rightarrow> string + 'dp processing"
  derived_data_description :: "string \<Rightarrow> string \<Rightarrow> error + string"

text \<open>
  The viewer descriptor that \<^verbatim>\<open>create_ng_link\<close> assembles. A float constant of the
  source is kept as its text.
\<close>

type_synonym float_literal = string

record axis =
  voxel_size :: json
  axis_unit :: string

record dimensions =
  z_axis :: axis
  y_axis :: axis
  x_axis :: axis
  t_voxel_size :: float_literal
  t_unit :: string

record layer =
  source :: string
  layer_type :: string
  layer_channel :: int
  layer_name :: string
  opacity :: int
  blend :: string
  tab :: string
  shader_color :: string
  shader_emitter :: string
  shader_vec :: string
  normalized_range :: "int \<times> int"

record input_configs =
  title :: string
  dimensions :: dimensions
  layers :: "layer list"
  crossSectionOrientation :: "float_literal list"
  crossSectionScale :: int

text \<open>
  The arguments of the viewer library's \<^verbatim>\<open>NgState\<close> and the link added to its state:
  what the written \<^verbatim>\<open>neuroglancer_config.json\<close> is made of.
\<close>

record ng_state =
  input_config :: input_configs
  mount_service :: string
  bucket_path :: string
  output_dir :: string
  base_url :: string
  json_name :: string
  ng_link :: string

datatype 'dp effect =
    WriteJson string json
  | WriteProcessing string "'dp processing"
  | WriteText string string
  | WriteDataDescription string string
  | WriteNeuroglancer string ng_state
  | MakeDirs string
  | CopyFile string string
  | Exec string

type_synonym ('dp, 'a) io = "(error + 'a) \<times> 'dp effect list"

text \<open>Sequencing: the second step runs only if the first did not raise.\<close>

definition and_then :: "('dp, 'a) io \<Rightarrow> ('a \<Rightarrow> ('dp, 'b) io) \<Rightarrow> ('dp, 'b) io" where
  "and_then m f =
     (case m of
        (Inl e, past) \<Rightarrow> (Inl e, past)
      | (Inr x, past) \<Rightarrow> (case f x of (r, later) \<Rightarrow> (r, past @ later)))"

definition pure :: "error + 'a \<Rightarrow> ('dp, 'a) io" where
  "pure r = (r, [])"

text \<open>The same for a computation without effects.\<close>

definition or_raise :: "error + 'a \<Rightarrow> ('a \<Rightarrow> error + 'b) \<Rightarrow> error + 'b" where
  "or_raise r f = (case r of Inl e \<Rightarrow> Inl e | Inr x \<Rightarrow> f x)"

text \<open>\<^verbatim>\<open>os.path.exists\<close> and \<^verbatim>\<open>Path.exists\<close>.\<close>

definition exists_path :: "'dp env \<Rightarrow> string \<Rightarrow> bool" where
  "exists_path env name = (files env name \<noteq> Missing)"

section \<open>utils.py\<close>

text \<open>
  \<^verbatim>\<open>execute_command_helper\<close> runs the command, yields its output lines, and raises
  \<^verbatim>\<open>CalledProcessError\<close> after the last line when the exit status is not zero. Every
  caller drains the generator, so a call is one effect followed by the check.
\<close>

definition execute_command_helper :: "'dp env \<Rightarrow> string \<Rightarrow> ('dp, unit) io" where
  "execute_command_helper env command =
     (if returncode env command \<noteq> 0
      then (Inl (CalledProcessError (returncode env command) command), [Exec command])
      else (Inr (), [Exec command]))"

text \<open>
  \<^verbatim>\<open>save_dict_as_json\<close>: \<^verbatim>\<open>None\<close> is written as an empty dictionary; the loop that turns
  \<^verbatim>\<open>Path\<close> values into strings finds none in a JSON document.
\<close>

fun save_dict_as_json :: "string \<Rightarrow> json \<Rightarrow> ('dp, unit) io" where
  "save_dict_as_json filename JNull = (Inr (), [WriteJson filename (JDict [])])"
| "save_dict_as_json filename (JDict d) = (Inr (), [WriteJson filename (JDict d)])"
| "save_dict_as_json filename other = (Inl AttributeError, [])"

text \<open>\<^verbatim>\<open>read_json_as_dict\<close>: a file that does not exist reads as the empty dictionary.\<close>

definition read_json_as_dict :: "'dp env \<Rightarrow> string \<Rightarrow> error + json" where
  "read_json_as_dict env filepath =
     (if exists_path env filepath
      then (case files env filepath of
              Json dictionary \<Rightarrow> Inr dictionary
            | Malformed \<Rightarrow> Inl JSONDecodeError
            | other \<Rightarrow> Inl OSError)
      else Inr (JDict []))"

definition save_string_to_txt :: "string \<Rightarrow> string \<Rightarrow> ('dp, unit) io" where
  "save_string_to_txt txt filepath = (Inr (), [WriteText filepath (txt @ [CHR 0x0A])])"

text \<open>The loop of \<^verbatim>\<open>validate_capsule_inputs\<close>, with \<open>missing_inputs\<close> as accumulator.\<close>

fun validate_loop :: "'dp env \<Rightarrow> string list \<Rightarrow> string list \<Rightarrow> string list" where
  "validate_loop env missing_inputs [] = missing_inputs"
| "validate_loop env missing_inputs (required_input_element # rest) =
     (let required_input_element = Path required_input_element
      in if \<not> exists_path env (path_str required_input_element)
         then validate_loop env (missing_inputs @ [path_str required_input_element]) rest
         else validate_loop env missing_inputs rest)"

definition validate_capsule_inputs :: "'dp env \<Rightarrow> string list \<Rightarrow> string list" where
  "validate_capsule_inputs env input_elements = validate_loop env [] input_elements"

text \<open>
  \<^verbatim>\<open>generate_processing\<close> builds the document and hands it to the library's
  \<^verbatim>\<open>write_standard_file\<close> with the destination directory.
\<close>

definition generate_processing ::
  "'dp list \<Rightarrow> string \<Rightarrow> string \<Rightarrow> string \<Rightarrow> ('dp, string) io" where
  "generate_processing dps dest_processing full_name version =
     (let processing_pipeline =
            \<lparr>data_processes = dps,
             processor_full_name = full_name,
             pipeline_version = version,
             pipeline_url = ''https://github.com/AllenNeuralDynamics/aind-smartspim-pipeline''\<rparr>;
          processing =
            \<lparr>processing_pipeline = processing_pipeline,
             notes = ''This processing was generated by compiling independent processing jsons for every step''\<rparr>
      in (Inr dest_processing, [WriteProcessing dest_processing processing]))"

text \<open>
  \<^verbatim>\<open>compile_processing_jsons\<close>. The body of the outer loop first reads and validates one
  fragment (\<open>load_fragment\<close>), then the inner loop appends its data processes one by one.
\<close>

definition load_fragment :: "'dp env \<Rightarrow> string \<Rightarrow> error + 'dp processing" where
  "load_fragment env processing_path =
     or_raise (read_json_as_dict env processing_path) (\<lambda>curr_processing.
       case validate_python env curr_processing of
         Inl message \<Rightarrow> Inl (ValidationError message)
       | Inr curr_processing_obj \<Rightarrow> Inr curr_processing_obj)"

fun append_each :: "'a list \<Rightarrow> 'a list \<Rightarrow> 'a list" where
  "append_each acc [] = acc"
| "append_each acc (data_process # rest) = append_each (acc @ [data_process]) rest"

fun read_fragments :: "'dp env \<Rightarrow> 'dp list \<Rightarrow> string list \<Rightarrow> error + 'dp list" where
  "read_fragments env dps [] = Inr dps"
| "read_fragments env dps (processing_path # rest) =
     (case load_fragment env processing_path of
        Inl e \<Rightarrow> Inl e
      | Inr curr_processing_obj \<Rightarrow>
          read_fragments env
            (append_each dps (data_processes (processing_pipeline curr_processing_obj))) rest)"

definition compile_processing_jsons ::
  "'dp env \<Rightarrow> string list \<Rightarrow> string \<Rightarrow> string \<Rightarrow> string \<Rightarrow> ('dp, string) io" where
  "compile_processing_jsons env processing_paths output_general_processing full_name version =
     (case read_fragments env [] processing_paths of
        Inl e \<Rightarrow> (Inl e, [])
      | Inr dps \<Rightarrow> generate_processing dps output_general_processing full_name version)"

text \<open>\<^verbatim>\<open>create_folder\<close> makes the folder when nothing of that name exists.\<close>

definition create_folder :: "'dp env \<Rightarrow> string \<Rightarrow> ('dp, unit) io" where
  "create_folder env dest_dir =
     (if \<not> exists_path env dest_dir then (Inr (), [MakeDirs dest_dir]) else (Inr (), []))"

text \<open>
  \<^verbatim>\<open>generate_data_description\<close>: the derived description is the library's; the function
  writes it into the destination folder and returns its name.
\<close>

definition generate_data_description ::
  "'dp env \<Rightarrow> string \<Rightarrow> string \<Rightarrow> string \<Rightarrow> ('dp, string) io" where
  "generate_data_description env raw_data_description_path dest_data_description process_name =
     (case derived_data_description env raw_data_description_path process_name of
        Inl e \<Rightarrow> (Inl e, [])
      | Inr derived_name \<Rightarrow>
          (Inr derived_name,
           [WriteDataDescription (dest_data_description @ ''/data_description.json'')
              derived_name]))"

fun copy_available_loop ::
  "'dp env \<Rightarrow> path \<Rightarrow> path \<Rightarrow> string list \<Rightarrow> string list \<Rightarrow> ('dp, string list) io" where
  "copy_available_loop env input_path output_path found_metadata [] = (Inr found_metadata, [])"
| "copy_available_loop env input_path output_path found_metadata (metadata_filename # rest) =
     (let metadata_filename = joinpath input_path metadata_filename
      in if exists_path env (path_str metadata_filename)
         then
           and_then
             (Inr (),
              [CopyFile (path_str metadata_filename)
                 (path_str (joinpath output_path (path_name metadata_filename)))]) (\<lambda>u.
           copy_available_loop env input_path output_path
             (found_metadata @ [path_str metadata_filename]) rest)
         else copy_available_loop env input_path output_path found_metadata rest)"

definition copy_available_metadata ::
  "'dp env \<Rightarrow> path \<Rightarrow> string \<Rightarrow> string list \<Rightarrow> ('dp, string list) io" where
  "copy_available_metadata env input_path output_path files_to_copy =
     copy_available_loop env input_path (Path output_path) [] files_to_copy"

section \<open>run\_capsule.py: the fan-out of the manifest\<close>

text \<open>
  \<^verbatim>\<open>d[k1][k2] = v\<close> on a nested dictionary. The inner dictionary is an object that the
  outer one refers to, so the assignment is seen through every reference to the outer
  dictionary.
\<close>

definition setitem2 :: "json \<Rightarrow> string \<Rightarrow> string \<Rightarrow> json \<Rightarrow> error + json" where
  "setitem2 d k1 k2 v =
     or_raise (getitem d k1) (\<lambda>inner.
     or_raise (setitem inner k2 v) (\<lambda>inner'.
     setitem d k1 inner'))"

text \<open>
  One round of the loop of \<^verbatim>\<open>dispatch\<close>. \<^verbatim>\<open>pipeline_config.copy()\<close> is a shallow copy:
  the copy and \<open>pipeline_config\<close> share the \<^verbatim>\<open>segmentation\<close> dictionary, so the three
  assignments into it change \<open>pipeline_config\<close> as well, while the \<^verbatim>\<open>quantification\<close> key
  is set in the copy only. The round returns \<open>pipeline_config\<close> as the next round finds it.
\<close>

definition dispatch_round :: "string \<Rightarrow> json \<Rightarrow> json \<Rightarrow> json \<Rightarrow> ('dp, json) io" where
  "dispatch_round results_folder background_channel pipeline_config channel_to_segment =
     (case
        or_raise (setitem2 pipeline_config ''segmentation'' ''input_data'' (JStr ''../data/fused''))
          (\<lambda>c1.
        or_raise (setitem2 c1 ''segmentation'' ''channel'' channel_to_segment) (\<lambda>c2.
        or_raise (setitem2 c2 ''segmentation'' ''background_channel'' background_channel)
          (\<lambda>shared.
        or_raise (setitem shared ''quantification'' (JDict [])) (\<lambda>c3.
        or_raise (setitem2 c3 ''quantification'' ''fused_folder'' (JStr ''../data/fused''))
          (\<lambda>c4.
        or_raise (setitem2 c4 ''quantification'' ''channel'' channel_to_segment) (\<lambda>c5.
        or_raise (setitem2 c5 ''quantification'' ''save_path'' (JStr ''../results/''))
          (\<lambda>copy_pipeline_config. Inr (shared, copy_pipeline_config))))))))
      of
        Inl e \<Rightarrow> (Inl e, [])
      | Inr (shared, copy_pipeline_config) \<Rightarrow>
          and_then
            (save_dict_as_json
               (results_folder @ ''/segmentation_processing_manifest_''
                  @ py_str channel_to_segment @ ''.json'')
               copy_pipeline_config)
            (\<lambda>u. (Inr shared, [])))"

fun dispatch_loop :: "string \<Rightarrow> json \<Rightarrow> json \<Rightarrow> json list \<Rightarrow> ('dp, json) io" where
  "dispatch_loop results_folder background_channel pipeline_config [] =
     (Inr pipeline_config, [])"
| "dispatch_loop results_folder background_channel pipeline_config (channel_to_segment # rest) =
     and_then
       (dispatch_round results_folder background_channel pipeline_config channel_to_segment)
       (\<lambda>pipeline_config'. dispatch_loop results_folder background_channel pipeline_config' rest)"

text \<open>
  \<^verbatim>\<open>dispatch\<close>. The background channel is read before the segmentation channels are
  checked. The result is the manifest as the caller finds it afterwards:
  \<open>pipeline_config\<close> is the object under its \<^verbatim>\<open>pipeline_processing\<close> key.
\<close>

definition dispatch :: "json \<Rightarrow> string \<Rightarrow> ('dp, json) io" where
  "dispatch processing_manifest results_folder =
     and_then (pure (dict_get processing_manifest ''pipeline_processing'')) (\<lambda>pipeline_config.
     if truthy pipeline_config then
       and_then (pure (or_raise (getitem pipeline_config ''segmentation'')
                         (\<lambda>seg. getitem seg ''channels''))) (\<lambda>segment_channels.
       and_then (pure (or_raise (getitem processing_manifest ''pipeline_processing'') (\<lambda>p.
                       or_raise (getitem p ''registration'') (\<lambda>r.
                       or_raise (getitem r ''channels'') (\<lambda>c. getindex c 0)))))
         (\<lambda>background_channel.
       and_then (pure (py_len segment_channels)) (\<lambda>n.
       if n = 0 then (Inl (BaseException ''Stopping pipeline, no segmentation channels.''), [])
       else
         and_then (pure (py_iter segment_channels)) (\<lambda>channels.
         and_then (dispatch_loop results_folder background_channel pipeline_config channels)
           (\<lambda>pipeline_config'.
         pure (setitem processing_manifest ''pipeline_processing'' pipeline_config'))))))
     else (Inl (BaseException ''Stopping pipeline, pipeline configuration.''), []))"

text \<open>What a channel task must hold for channel \<open>ch\<close> and background channel \<open>bg\<close>.\<close>

definition get2 :: "json \<Rightarrow> string \<Rightarrow> string \<Rightarrow> error + json" where
  "get2 d k1 k2 = or_raise (getitem d k1) (\<lambda>inner. getitem inner k2)"

definition channel_task :: "json \<Rightarrow> json \<Rightarrow> json \<Rightarrow> bool" where
  "channel_task bg ch task =
     (get2 task ''segmentation'' ''channel'' = Inr ch
      \<and> get2 task ''segmentation'' ''background_channel'' = Inr bg
      \<and> get2 task ''segmentation'' ''input_data'' = Inr (JStr ''../data/fused'')
      \<and> get2 task ''quantification'' ''fused_folder'' = Inr (JStr ''../data/fused'')
      \<and> get2 task ''quantification'' ''channel'' = Inr ch
      \<and> get2 task ''quantification'' ''save_path'' = Inr (JStr ''../results/''))"

definition task_file :: "string \<Rightarrow> json \<Rightarrow> string" where
  "task_file results_folder ch =
     results_folder @ ''/segmentation_processing_manifest_'' @ py_str ch @ ''.json''"

section \<open>run\_capsule.py: provenance discovery and relocation\<close>

definition PIPELINE_VERSION :: string where
  "PIPELINE_VERSION = ''2.0.2''"

text \<open>
  The comprehension that finds the fragments of one stage folder, the loop that collects
  them folder by folder, and the loop that flattens the collected lists.
\<close>

definition processing_jsons :: "'dp env \<Rightarrow> string \<Rightarrow> string list" where
  "processing_jsons env folder =
     filter (\<lambda>p. \<not> str_contains ''manifest'' p)
       (glob env (folder @ ''/metadata/*processing*.json''))"

fun collect_processing :: "'dp env \<Rightarrow> string list list \<Rightarrow> string list \<Rightarrow> string list list" where
  "collect_processing env acc [] = acc"
| "collect_processing env acc (folder # rest) =
     collect_processing env (acc @ [processing_jsons env folder]) rest"

fun flatten :: "string list \<Rightarrow> string list list \<Rightarrow> string list" where
  "flatten processing_paths [] = processing_paths"
| "flatten processing_paths (sub_list # rest) = flatten (processing_paths @ sub_list) rest"

text \<open>
  \<^verbatim>\<open>re.search(r"Ex_(\d{3})_Em_(\d{3})$", folder).group()\<close>: the leftmost place where the
  pattern matches with the end of the text, or a final newline, right behind it. When there
  is none, \<^verbatim>\<open>re.search\<close> returns \<^verbatim>\<open>None\<close> and \<^verbatim>\<open>.group()\<close> raises \<^verbatim>\<open>AttributeError\<close>.
\<close>

definition channel_pattern :: "string \<Rightarrow> bool" where
  "channel_pattern t =
     (length t = 13 \<and> take 3 t = ''Ex_'' \<and> list_all is_digit (take 3 (drop 3 t))
      \<and> take 4 (drop 6 t) = ''_Em_'' \<and> list_all is_digit (drop 10 t))"

fun re_search :: "string \<Rightarrow> string option" where
  "re_search [] = None"
| "re_search (c # cs) =
     (if channel_pattern (take 13 (c # cs))
         \<and> (drop 13 (c # cs) = [] \<or> drop 13 (c # cs) = [CHR 0x0A])
      then Some (take 13 (c # cs))
      else re_search cs)"

definition channel_name_of :: "string \<Rightarrow> error + string" where
  "channel_name_of folder =
     (case re_search folder of None \<Rightarrow> Inl AttributeError | Some found \<Rightarrow> Inr found)"

text \<open>
  The loop that moves each folder of a stage to \<open>s3_output\<close> under its channel name; the
  cell, quantification and CCF stages are each moved by a loop with this body.
\<close>

fun move_folders :: "'dp env \<Rightarrow> string \<Rightarrow> string list \<Rightarrow> ('dp, unit) io" where
  "move_folders env s3_output [] = (Inr (), [])"
| "move_folders env s3_output (folder # rest) =
     and_then (pure (channel_name_of folder)) (\<lambda>channel_name.
     and_then (execute_command_helper env
                 (''aws s3 mv --recursive '' @ folder @ '' '' @ s3_output @ ''/'' @ channel_name))
       (\<lambda>u.
     move_folders env s3_output rest))"

subsection \<open>\<^verbatim>\<open>clean_up\<close>\<close>

definition clean_processing_paths ::
  "'dp env \<Rightarrow> string \<Rightarrow> string list \<Rightarrow> string list \<Rightarrow> string list" where
  "clean_processing_paths env data_folder cell_folders quantification_folders =
     (let segmentation_processing = collect_processing env [] cell_folders;
          quantification_processing = collect_processing env [] quantification_folders;
          combined_processing_list =
            [[data_folder @ ''/output_aind_metadata/processing.json'']]
            @ segmentation_processing @ quantification_processing
      in flatten [] combined_processing_list)"

text \<open>The cloud branch; it binds the two output locations that the summary files name.\<close>

definition clean_up_cloud ::
  "'dp env \<Rightarrow> json \<Rightarrow> string \<Rightarrow> string list \<Rightarrow> string list \<Rightarrow> ('dp, string \<times> string) io" where
  "clean_up_cloud env processing_manifest results_folder cell_folders quantification_folders =
     and_then (pure (or_raise (getitem processing_manifest ''pipeline_processing'') (\<lambda>p.
                     or_raise (getitem p ''stitching'') (\<lambda>st. getitem st ''s3_path''))))
       (\<lambda>s3_path.
     let cell_s3_output = py_str s3_path @ ''/image_cell_segmentation'';
         quantification_s3_output = py_str s3_path @ ''/image_cell_quantification''
     in
     and_then (execute_command_helper env
                 (''aws s3 mv '' @ results_folder @ ''/processing.json '' @ py_str s3_path
                    @ ''/processing.json'')) (\<lambda>u.
     and_then (move_folders env cell_s3_output cell_folders) (\<lambda>u.
     and_then (move_folders env quantification_s3_output quantification_folders) (\<lambda>u.
     (Inr (cell_s3_output, quantification_s3_output), [])))))"

text \<open>
  What follows the call of the compiler in \<^verbatim>\<open>clean_up\<close>. In local mode nothing binds
  \<open>cell_s3_output\<close>, and the first summary file raises \<^verbatim>\<open>UnboundLocalError\<close>, a
  \<^verbatim>\<open>NameError\<close>.
\<close>

definition clean_up_relocate ::
  "'dp env \<Rightarrow> json \<Rightarrow> string \<Rightarrow> bool \<Rightarrow> string list \<Rightarrow> string list \<Rightarrow> ('dp, unit) io" where
  "clean_up_relocate env processing_manifest results_folder cloud_mode cell_folders
     quantification_folders =
     and_then (if cloud_mode
               then and_then (clean_up_cloud env processing_manifest results_folder
                                cell_folders quantification_folders)
                      (\<lambda>outputs. (Inr (Some outputs), []))
               else (Inr None, [])) (\<lambda>outputs.
     case outputs of
       None \<Rightarrow> (Inl (NameError ''cell_s3_output''), [])
     | Some (cell_s3_output, quantification_s3_output) \<Rightarrow>
         and_then (save_string_to_txt
                     (''Results of cell segmentation saved in: '' @ cell_s3_output)
                     (results_folder @ ''/output_cell.txt'')) (\<lambda>u.
         save_string_to_txt
           (''Results of quantification saved in: '' @ quantification_s3_output)
           (results_folder @ ''/output_quantification.txt'')))"

text \<open>
  \<^verbatim>\<open>clean_up\<close>. The folder listing at the top raises when the data folder is not a
  directory. The call of the compiler stands in no \<^verbatim>\<open>try\<close>.
\<close>

definition clean_up :: "'dp env \<Rightarrow> json \<Rightarrow> string \<Rightarrow> string \<Rightarrow> bool \<Rightarrow> ('dp, unit) io" where
  "clean_up env processing_manifest data_folder results_folder cloud_mode =
     (if \<not> is_dir env data_folder then (Inl OSError, [])
      else
        let cell_folders = glob env (data_folder @ ''/cell_*'');
            quantification_folders = glob env (data_folder @ ''/quant_*'');
            processing_paths =
              clean_processing_paths env data_folder cell_folders quantification_folders
        in
        and_then (compile_processing_jsons env processing_paths results_folder
                    ''Camilo Laiton'' PIPELINE_VERSION) (\<lambda>output_filename.
        clean_up_relocate env processing_manifest results_folder cloud_mode cell_folders
          quantification_folders))"

subsection \<open>\<^verbatim>\<open>copy_intermediate_data\<close>\<close>

text \<open>
  The fragment paths of dispatch mode: the destripe files as given, then the fragments
  found under the stitch, fuse and CCF folders. The flatfield folders are not looked at.
\<close>

definition copy_processing_paths ::
  "'dp env \<Rightarrow> string list \<Rightarrow> string list \<Rightarrow> string list \<Rightarrow> string list \<Rightarrow> string list" where
  "copy_processing_paths env destripe_files stitch_folders fuse_folders ccf_folders =
     (let stitch_processings = collect_processing env [] stitch_folders;
          fuse_processings = collect_processing env [] fuse_folders;
          ccf_processings = collect_processing env [] ccf_folders;
          combined_processing_list = stitch_processings @ fuse_processings @ ccf_processings;
          processing_paths = flatten [] combined_processing_list
      in destripe_files @ processing_paths)"

text \<open>
  The \<^verbatim>\<open>try\<close> around the compiler: an exception of class \<^verbatim>\<open>Exception\<close> is replaced by
  \<^verbatim>\<open>None\<close>; any other one passes.
\<close>

definition try_compile ::
  "'dp env \<Rightarrow> string list \<Rightarrow> string \<Rightarrow> ('dp, string option) io" where
  "try_compile env processing_paths output_dispatch_metadata =
     (case compile_processing_jsons env processing_paths output_dispatch_metadata
             ''Camilo Laiton'' PIPELINE_VERSION of
        (Inl e, past) \<Rightarrow> if is_Exception e then (Inr None, past) else (Inl e, past)
      | (Inr output_filename, past) \<Rightarrow> (Inr (Some output_filename), past))"

fun copy_flatfields :: "'dp env \<Rightarrow> string \<Rightarrow> string list \<Rightarrow> ('dp, unit) io" where
  "copy_flatfields env dest_metadata_path [] = (Inr (), [])"
| "copy_flatfields env dest_metadata_path (flatfield_channel # rest) =
     and_then (execute_command_helper env
                 (''aws s3 cp --recursive '' @ flatfield_channel @ '' '' @ dest_metadata_path
                    @ ''/flatfield_correction/'' @ path_name (Path flatfield_channel))) (\<lambda>u.
     copy_flatfields env dest_metadata_path rest)"

fun copy_fused :: "'dp env \<Rightarrow> string \<Rightarrow> string \<Rightarrow> string list \<Rightarrow> ('dp, unit) io" where
  "copy_fused env dest_zarr_path dest_metadata_path [] = (Inr (), [])"
| "copy_fused env dest_zarr_path dest_metadata_path (fuse_folder # rest) =
     (let fuse_folder = Path fuse_folder;
          source_zarr = joinpath fuse_folder ''OMEZarr'';
          source_metadata = joinpath fuse_folder ''metadata''
      in
      and_then (if exists_path env (path_str source_zarr)
                then execute_command_helper env
                       (''aws s3 cp --recursive '' @ path_str source_zarr @ '' '' @ dest_zarr_path)
                else (Inl (ValueError (''Folder '' @ path_str source_zarr @ '' does not exist!'')),
                      [])) (\<lambda>u.
      and_then (if exists_path env (path_str source_metadata)
                then execute_command_helper env
                       (''aws s3 cp --recursive '' @ path_str source_metadata @ '' ''
                          @ dest_metadata_path @ ''/'' @ path_name fuse_folder)
                else (Inl (ValueError (''Folder '' @ path_str source_metadata
                                         @ '' does not exist!'')), [])) (\<lambda>u.
      copy_fused env dest_zarr_path dest_metadata_path rest)))"

fun copy_stitched :: "'dp env \<Rightarrow> string \<Rightarrow> string list \<Rightarrow> ('dp, unit) io" where
  "copy_stitched env dest_metadata_path [] = (Inr (), [])"
| "copy_stitched env dest_metadata_path (stitch_folder # rest) =
     (let stitch_folder = Path stitch_folder;
          source_metadata = joinpath stitch_folder ''metadata''
      in
      and_then (if exists_path env (path_str source_metadata)
                then execute_command_helper env
                       (''aws s3 cp --recursive '' @ path_str source_metadata @ '' ''
                          @ dest_metadata_path @ ''/'' @ path_name stitch_folder)
                else (Inl (ValueError (''Folder '' @ path_str source_metadata
                                         @ '' does not exist!'')), [])) (\<lambda>u.
      copy_stitched env dest_metadata_path rest))"

text \<open>
  What follows the \<^verbatim>\<open>try\<close>. Only the cloud branch binds \<open>s3_path\<close> and
  \<open>dest_zarr_path\<close>, so in local mode the \<^verbatim>\<open>return\<close> raises \<^verbatim>\<open>UnboundLocalError\<close>.
\<close>

definition relocate ::
  "'dp env \<Rightarrow> string \<Rightarrow> string list \<Rightarrow> string list \<Rightarrow> string list \<Rightarrow> string list
     \<Rightarrow> string \<Rightarrow> string \<Rightarrow> string \<Rightarrow> bool \<Rightarrow> ('dp, string \<times> string) io" where
  "relocate env output_dispatch_metadata flatfield_channels stitch_folders fuse_folders
     ccf_folders new_dataset_name output_path results_folder cloud_mode =
     (if cloud_mode then
        let s3_path = ''s3://'' @ output_path @ ''/'' @ new_dataset_name;
            output_dispatch_metadata = Path output_dispatch_metadata;
            output_fusion = ''image_tile_fusing'';
            dest_zarr_path = s3_path @ ''/'' @ output_fusion @ ''/OMEZarr'';
            dest_metadata_path = s3_path @ ''/'' @ output_fusion @ ''/metadata'';
            ccf_s3_output = s3_path @ ''/image_atlas_alignment''
        in
        and_then (execute_command_helper env
                    (''aws s3 cp --recursive '' @ path_str output_dispatch_metadata @ '' ''
                       @ s3_path)) (\<lambda>u.
        and_then (copy_flatfields env dest_metadata_path flatfield_channels) (\<lambda>u.
        and_then (copy_fused env dest_zarr_path dest_metadata_path fuse_folders) (\<lambda>u.
        and_then (copy_stitched env dest_metadata_path stitch_folders) (\<lambda>u.
        and_then (move_folders env ccf_s3_output ccf_folders) (\<lambda>u.
        and_then (save_string_to_txt (''Stitched dataset saved in: '' @ s3_path)
                    (results_folder @ ''/output_stitching.txt'')) (\<lambda>u.
        (Inr (s3_path, dest_zarr_path), [])))))))
      else (Inl (NameError ''s3_path''), []))"

definition copy_intermediate_data ::
  "'dp env \<Rightarrow> string \<Rightarrow> string list \<Rightarrow> string list \<Rightarrow> string list \<Rightarrow> string list
     \<Rightarrow> string list \<Rightarrow> string \<Rightarrow> string \<Rightarrow> string \<Rightarrow> bool \<Rightarrow> ('dp, string \<times> string) io" where
  "copy_intermediate_data env output_dispatch_metadata destripe_files flatfield_channels
     stitch_folders fuse_folders ccf_folders new_dataset_name output_path results_folder
     cloud_mode =
     (let processing_paths =
            copy_processing_paths env destripe_files stitch_folders fuse_folders ccf_folders
      in
      and_then (try_compile env processing_paths output_dispatch_metadata) (\<lambda>output_filename.
      relocate env output_dispatch_metadata flatfield_channels stitch_folders fuse_folders
        ccf_folders new_dataset_name output_path results_folder cloud_mode))"

section \<open>run\_capsule.py: the viewer link\<close>

text \<open>
  The configuration that \<^verbatim>\<open>run\<close> hands to \<^verbatim>\<open>create_ng_link\<close>: a dictionary literal with
  exactly these keys.
\<close>

record ng_config =
  cfg_bucket_path :: string
  cfg_output_folder :: string
  cfg_ng_base_url :: string
  z_res :: json
  y_res :: json
  x_res :: json

text \<open>The body of the colour loop: the channel number of a path, and its colour.\<close>

definition channel_of :: "string \<Rightarrow> error + int" where
  "channel_of channel_str =
     (let channel_str = path_stem (Path channel_str)
      in py_int (last (split_on CHR ''_'' channel_str)))"

definition channel_color :: "int \<Rightarrow> error + string" where
  "channel_color wavelength =
     or_raise (wavelength_to_hex_alternate wavelength) (\<lambda>hex_val.
     Inr (CHR ''#'' # drop 2 (hex hex_val)))"

fun colors_loop :: "string list \<Rightarrow> string list \<Rightarrow> error + string list" where
  "colors_loop colors [] = Inr colors"
| "colors_loop colors (channel_str # rest) =
     or_raise (channel_of channel_str) (\<lambda>wavelength.
     or_raise (channel_color wavelength) (\<lambda>hex_str.
     colors_loop (colors @ [hex_str]) rest))"

definition make_layer :: "string \<Rightarrow> string \<Rightarrow> layer" where
  "make_layer channel_path color =
     \<lparr>source = channel_path, layer_type = ''image'', layer_channel = 0,
      layer_name = path_name (Path channel_path), opacity = 1, blend = ''additive'',
      tab = ''rendering'', shader_color = color, shader_emitter = ''RGB'',
      shader_vec = ''vec3'', normalized_range = (0, 200)\<rparr>"

text \<open>The layer loop runs over the indices of the sorted paths.\<close>

definition layers_loop :: "string list \<Rightarrow> string list \<Rightarrow> layer list" where
  "layers_loop s3_channel_paths colors =
     map (\<lambda>idx. make_layer (s3_channel_paths ! idx) (colors ! idx))
       [0 ..< length s3_channel_paths]"

definition subject_id_of :: "string \<Rightarrow> error + string" where
  "subject_id_of s3_dataset_path =
     (let pieces = split_on CHR ''_'' (path_name (Path s3_dataset_path))
      in if 1 < length pieces then Inr (pieces ! 1) else Inl IndexError)"

definition create_ng_link ::
  "ng_config \<Rightarrow> string list \<Rightarrow> string \<Rightarrow> ('dp, path \<times> string) io" where
  "create_ng_link config s3_channel_paths s3_dataset_path =
     (let s3_channel_paths = sort s3_channel_paths;
          dims = \<lparr>z_axis = \<lparr>voxel_size = z_res config, axis_unit = ''microns''\<rparr>,
                  y_axis = \<lparr>voxel_size = y_res config, axis_unit = ''microns''\<rparr>,
                  x_axis = \<lparr>voxel_size = x_res config, axis_unit = ''microns''\<rparr>,
                  t_voxel_size = ''0.001'', t_unit = ''seconds''\<rparr>
      in
      and_then (pure (colors_loop [] s3_channel_paths)) (\<lambda>colors.
      and_then (pure (subject_id_of s3_dataset_path)) (\<lambda>subject_id.
      let input_configs =
            \<lparr>title = subject_id, dimensions = dims,
             layers = layers_loop s3_channel_paths colors,
             crossSectionOrientation = [''0.5'', ''0.5'', ''0.5'', ''-0.5''],
             crossSectionScale = 15\<rparr>;
          link = cfg_ng_base_url config @ ''#!'' @ s3_dataset_path @ ''/neuroglancer_config.json'';
          ng_output_path = cfg_output_folder config @ ''/neuroglancer_config.json''
      in (Inr (Path ng_output_path, link),
          [WriteNeuroglancer ng_output_path
             \<lparr>input_config = input_configs, mount_service = ''s3'',
              bucket_path = cfg_bucket_path config, output_dir = cfg_output_folder config,
              base_url = cfg_ng_base_url config, json_name = ''neuroglancer_config.json'',
              ng_link = link\<rparr>]))))"

section \<open>run\_capsule.py: the entry point\<close>

definition get_data_config ::
  "'dp env \<Rightarrow> string \<Rightarrow> string \<Rightarrow> string \<Rightarrow> error + (json \<times> json \<times> json)" where
  "get_data_config env data_folder processing_manifest_path data_description_path =
     (let processing_manifest_path = Path (data_folder @ ''/'' @ processing_manifest_path);
          data_description_path = Path (data_folder @ ''/'' @ data_description_path)
      in
      if \<not> exists_path env (path_str processing_manifest_path)
      then Inl (ValueError (''Please, check processing manifest path: ''
                              @ path_str processing_manifest_path))
      else if \<not> exists_path env (path_str data_description_path)
      then Inl (ValueError (''Please, check data description path: ''
                              @ path_str data_description_path))
      else
        or_raise (read_json_as_dict env (path_str processing_manifest_path))
          (\<lambda>derivatives_dict.
        or_raise (read_json_as_dict env (path_str data_description_path))
          (\<lambda>data_description_dict.
        or_raise (getitem data_description_dict ''name'') (\<lambda>smartspim_dataset.
        or_raise (getitem data_description_dict ''investigators'') (\<lambda>investigators.
        Inr (derivatives_dict, smartspim_dataset, investigators))))))"

text \<open>
  \<^verbatim>\<open>create_derived_stitched_metadata\<close>. Of its two folder listings the one of the raw
  metadata folder can raise; the output folder has just been created.
\<close>

definition create_derived_stitched_metadata ::
  "'dp env \<Rightarrow> path \<Rightarrow> path \<Rightarrow> ('dp, string \<times> string) io" where
  "create_derived_stitched_metadata env data_folder results_folder =
     (let raw_metadata_path = joinpath data_folder ''input_aind_metadata'';
          output_dispatch_metadata = path_str results_folder @ ''/output_aind_metadata''
      in
      and_then (create_folder env output_dispatch_metadata) (\<lambda>u.
      and_then (generate_data_description env
                  (path_str (joinpath raw_metadata_path ''data_description.json''))
                  output_dispatch_metadata ''stitched'') (\<lambda>new_dataset_name.
      and_then (copy_available_metadata env raw_metadata_path output_dispatch_metadata
                  [''acquisition.json'', ''instrument.json'', ''subject.json'',
                   ''procedures.json'', ''session.json'']) (\<lambda>found_metadata.
      if \<not> is_dir env (path_str raw_metadata_path) then (Inl OSError, [])
      else (Inr (output_dispatch_metadata, new_dataset_name), [])))))"

text \<open>
  The three parameters: the text of the argument list, without brackets and case-folded,
  is split at the commas, and anything but three pieces ends the process with status 1.
  The cloud flag is the truth value of its piece, that is, whether the piece is not empty.
\<close>

definition fold_params :: "string \<Rightarrow> string" where
  "fold_params params = casefold (remove_char CHR '']'' (remove_char CHR ''['' params))"

definition param_pieces :: "string list \<Rightarrow> string list" where
  "param_pieces argv =
     (let params = str_list argv;
          params = fold_params params
      in split_on CHR '','' params)"

definition parse_params :: "string list \<Rightarrow> error + (string \<times> bool \<times> string)" where
  "parse_params argv =
     (case param_pieces argv of
        [mode, cloud_mode, output_path] \<Rightarrow> Inr (mode, cloud_mode \<noteq> [], output_path)
      | other \<Rightarrow> Inl (SystemExit 1))"

definition required_input_elements :: "path \<Rightarrow> string \<Rightarrow> string list" where
  "required_input_elements data_folder mode =
     (if str_contains ''clean'' mode
      then [path_str data_folder @ ''/modified_processing_manifest.json'',
            path_str data_folder @ ''/input_aind_metadata/data_description.json'']
      else [path_str data_folder @ ''/processing_manifest.json'',
            path_str data_folder @ ''/input_aind_metadata/data_description.json''])"

fun s3_paths_loop :: "string \<Rightarrow> string list \<Rightarrow> string list \<Rightarrow> string list" where
  "s3_paths_loop s3_dest_zarr s3_paths_for_channels [] = s3_paths_for_channels"
| "s3_paths_loop s3_dest_zarr s3_paths_for_channels (fuse_folder # rest) =
     (let channel_name = remove_all ''fusion_'' (path_name (Path fuse_folder))
      in s3_paths_loop s3_dest_zarr
           (s3_paths_for_channels @ [s3_dest_zarr @ ''/'' @ channel_name @ ''.zarr'']) rest)"

definition setitem3 :: "json \<Rightarrow> string \<Rightarrow> string \<Rightarrow> string \<Rightarrow> json \<Rightarrow> error + json" where
  "setitem3 d k1 k2 k3 v =
     or_raise (getitem d k1) (\<lambda>inner.
     or_raise (setitem2 inner k2 k3 v) (\<lambda>inner'.
     setitem d k1 inner'))"

definition axis_resolution :: "json \<Rightarrow> nat \<Rightarrow> error + json" where
  "axis_resolution axes_resolution i =
     or_raise (getindex axes_resolution i) (\<lambda>entry. getitem entry ''resolution'')"

text \<open>The branch of \<^verbatim>\<open>run\<close> for a mode that contains "dispatch".\<close>

definition run_dispatch ::
  "'dp env \<Rightarrow> path \<Rightarrow> path \<Rightarrow> bool \<Rightarrow> string \<Rightarrow> ('dp, unit) io" where
  "run_dispatch env data_folder results_folder cloud_mode output_path =
     and_then (pure (get_data_config env (path_str data_folder) ''processing_manifest.json''
                       ''input_aind_metadata/data_description.json''))
       (\<lambda>(pipeline_config, dataset_name, investigators).
     and_then (create_derived_stitched_metadata env data_folder results_folder)
       (\<lambda>(output_dispatch_metadata, new_dataset_name).
     let destripe_files = glob env (path_str data_folder @ ''/image_destriping_*'');
         flatfield_channels = glob env (path_str data_folder @ ''/flatfield_correction_*'');
         stitch_folders = glob env (path_str data_folder @ ''/stitched/stitch_*'');
         fuse_folders = glob env (path_str data_folder @ ''/fused/fusion_*'');
         ccf_folders = glob env (path_str data_folder @ ''/ccf_registration_results/ccf_*'')
     in
     and_then (copy_intermediate_data env output_dispatch_metadata destripe_files
                 flatfield_channels stitch_folders fuse_folders ccf_folders new_dataset_name
                 output_path (path_str results_folder) cloud_mode)
       (\<lambda>(s3_path, s3_dest_zarr).
     let s3_paths_for_channels = s3_paths_loop s3_dest_zarr [] fuse_folders in
     and_then (pure (or_raise (getitem pipeline_config ''pipeline_processing'') (\<lambda>p.
                     or_raise (getitem p ''stitching'') (\<lambda>st. getitem st ''resolution''))))
       (\<lambda>axes_resolution.
     and_then (pure (axis_resolution axes_resolution 2)) (\<lambda>z.
     and_then (pure (axis_resolution axes_resolution 1)) (\<lambda>y.
     and_then (pure (axis_resolution axes_resolution 0)) (\<lambda>x.
     and_then (create_ng_link
                 \<lparr>cfg_bucket_path = output_path, cfg_output_folder = path_str results_folder,
                  cfg_ng_base_url = ''https://aind-neuroglancer-sauujisjxq-uw.a.run.app'',
                  z_res = z, y_res = y, x_res = x\<rparr>
                 s3_paths_for_channels s3_path)
       (\<lambda>(output_json, ng_link_path).
     and_then (if cloud_mode
               then execute_command_helper env
                      (''aws s3 cp '' @ path_str output_json @ '' '' @ s3_path @ ''/''
                         @ path_name output_json)
               else (Inr (), [])) (\<lambda>u.
     and_then (pure (setitem3 pipeline_config ''pipeline_processing'' ''stitching'' ''s3_path''
                       (JStr s3_path))) (\<lambda>pipeline_config.
     and_then (dispatch pipeline_config (path_str results_folder)) (\<lambda>pipeline_config.
     save_dict_as_json (path_str results_folder @ ''/modified_processing_manifest.json'')
       pipeline_config)))))))))))"

text \<open>The branch for a mode that contains "clean" and not "dispatch".\<close>

definition run_clean :: "'dp env \<Rightarrow> path \<Rightarrow> path \<Rightarrow> bool \<Rightarrow> ('dp, unit) io" where
  "run_clean env data_folder results_folder cloud_mode =
     and_then (pure (get_data_config env (path_str data_folder)
                       ''modified_processing_manifest.json''
                       ''input_aind_metadata/data_description.json''))
       (\<lambda>(pipeline_config, dataset_name, investigators).
     and_then (pure (setitem pipeline_config ''name'' dataset_name)) (\<lambda>pipeline_config.
     clean_up env pipeline_config (path_str data_folder) (path_str results_folder) cloud_mode))"

text \<open>
  What \<^verbatim>\<open>run\<close> does once the three parameters are known: it lists every missing input
  in one \<^verbatim>\<open>ValueError\<close> before anything else, and then takes the branch of the mode.
\<close>

definition run_mode :: "'dp env \<Rightarrow> string \<Rightarrow> bool \<Rightarrow> string \<Rightarrow> ('dp, unit) io" where
  "run_mode env mode cloud_mode output_path =
     (let data_folder = Path (abspath env ''../data'');
          results_folder = Path (abspath env ''../results'');
          missing_files =
            validate_capsule_inputs env (required_input_elements data_folder mode)
      in
      if missing_files \<noteq> []
      then (Inl (ValueError (''We miss the following files in the capsule input: ''
                               @ str_list missing_files)), [])
      else if \<not> is_dir env (path_str data_folder) then (Inl OSError, [])
      else if str_contains ''dispatch'' mode
      then run_dispatch env data_folder results_folder cloud_mode output_path
      else if str_contains ''clean'' mode
      then run_clean env data_folder results_folder cloud_mode
      else (Inl (NotImplementedError (''The mode '' @ mode @ '' has not been implemented'')), []))"

definition run :: "'dp env \<Rightarrow> string list \<Rightarrow> ('dp, unit) io" where
  "run env argv =
     and_then (pure (parse_params argv)) (\<lambda>(mode, cloud_mode, output_path).
     run_mode env mode cloud_mode output_path)"

section \<open>An example staging area\<close>

text \<open>
  A validator in the shape of the library's: a fragment is valid when it has a
  \<^verbatim>\<open>processing_pipeline\<close> with a list of \<^verbatim>\<open>data_processes\<close>; a data process is kept as
  its text.
\<close>

definition example_validate :: "json \<Rightarrow> string + string processing" where
  "example_validate fragment =
     (case getitem fragment ''processing_pipeline'' of
        Inl e \<Rightarrow> Inl ''processing_pipeline: field required''
      | Inr pipeline \<Rightarrow>
          (case getitem pipeline ''data_processes'' of
             Inr (JList xs) \<Rightarrow>
               Inr \<lparr>processing_pipeline =
                      \<lparr>data_processes = map py_str xs, processor_full_name = [],
                       pipeline_version = [], pipeline_url = []\<rparr>,
                    notes = []\<rparr>
           | other \<Rightarrow> Inl ''data_processes: field required''))"

definition fragment_of :: "string list \<Rightarrow> json" where
  "fragment_of names =
     JDict [(''processing_pipeline'', JDict [(''data_processes'', JList (map JStr names))])]"

text \<open>A manifest with the given segmentation channels and background channel 0.\<close>

definition example_pipeline :: "json list \<Rightarrow> json" where
  "example_pipeline channels =
     JDict [(''stitching'', JDict [(''co_input_data'', JStr ''../data'')]),
            (''registration'', JDict [(''channels'', JList [JInt 0])]),
            (''segmentation'', JDict [(''channels'', JList channels), (''chunksize'', JInt 128)])]"

definition example_manifest :: "json list \<Rightarrow> json" where
  "example_manifest channels = JDict [(''pipeline_processing'', example_pipeline channels)]"

text \<open>
  Two staging areas with one channel. Under \<^verbatim>\<open>/data\<close>, as dispatch mode finds it, the
  fragment of the fusion stage is not JSON, the raw-metadata stage has left no
  \<^verbatim>\<open>processing.json\<close>, and the required inputs of both modes are missing. Under
  \<^verbatim>\<open>/done\<close>, as clean mode finds it, everything is in place.
\<close>

definition example_modified_manifest :: json where
  "example_modified_manifest =
     JDict [(''pipeline_processing'',
             JDict [(''stitching'',
                     JDict [(''s3_path'', JStr ''s3://aind-open-data/SmartSPIM_1_stitched'')]),
                    (''registration'', JDict [(''channels'', JList [JInt 0])]),
                    (''segmentation'', JDict [(''channels'', JList [JInt 1])])])]"

definition example_files :: "string \<Rightarrow> file_state" where
  "example_files name =
     (if name = ''/data/A.json'' then Json (fragment_of [''import'', ''destripe''])
      else if name = ''/data/B.json'' then Json (fragment_of [''stitch''])
      else if name = ''/data/broken.json'' then Malformed
      else if name = ''/data/invalid.json'' then Json (JDict [])
      else if name = ''/data/flatfield_correction_Ex_488_Em_525/metadata/processing.json''
        then Json (fragment_of [''flatfield''])
      else if name = ''/data/stitched/stitch_Ex_488_Em_525/metadata'' then Unreadable
      else if name = ''/data/stitched/stitch_Ex_488_Em_525/metadata/processing.json''
        then Json (fragment_of [''stitch''])
      else if name = ''/data/fused/fusion_Ex_488_Em_525/OMEZarr'' then Unreadable
      else if name = ''/data/fused/fusion_Ex_488_Em_525/metadata'' then Unreadable
      else if name = ''/data/fused/fusion_Ex_488_Em_525/metadata/processing.json''
        then Malformed
      else if name = ''/data/cell_Ex_488_Em_525/metadata/processing.json''
        then Json (fragment_of [''segmentation''])
      else if name = ''/done/modified_processing_manifest.json''
        then Json example_modified_manifest
      else if name = ''/done/input_aind_metadata/data_description.json''
        then Json (JDict [(''name'', JStr ''SmartSPIM_1''), (''investigators'', JList [])])
      else if name = ''/done/output_aind_metadata/processing.json''
        then Json (fragment_of [''import'', ''stitch''])
      else if name = ''/done/cell_Ex_488_Em_525/metadata/processing.json''
        then Json (fragment_of [''segmentation''])
      else if name = ''/done/quant_Ex_488_Em_525/metadata/processing.json''
        then Json (fragment_of [''quantification''])
      else Missing)"

definition example_glob :: "string \<Rightarrow> string list" where
  "example_glob pattern =
     (if pattern = ''/data/image_destriping_*'' then [''/data/A.json'']
      else if pattern = ''/data/flatfield_correction_*''
        then [''/data/flatfield_correction_Ex_488_Em_525'']
      else if pattern = ''/data/flatfield_correction_Ex_488_Em_525/metadata/*processing*.json''
        then [''/data/flatfield_correction_Ex_488_Em_525/metadata/processing.json'']
      else if pattern = ''/data/stitched/stitch_*'' then [''/data/stitched/stitch_Ex_488_Em_525'']
      else if pattern = ''/data/stitched/stitch_Ex_488_Em_525/metadata/*processing*.json''
        then [''/data/stitched/stitch_Ex_488_Em_525/metadata/processing_manifest.json'',
              ''/data/stitched/stitch_Ex_488_Em_525/metadata/processing.json'']
      else if pattern = ''/data/fused/fusion_*'' then [''/data/fused/fusion_Ex_488_Em_525'']
      else if pattern = ''/data/fused/fusion_Ex_488_Em_525/metadata/*processing*.json''
        then [''/data/fused/fusion_Ex_488_Em_525/metadata/processing.json'']
      else if pattern = ''/data/cell_*'' then [''/data/cell_Ex_488_Em_525'']
      else if pattern = ''/data/cell_Ex_488_Em_525/metadata/*processing*.json''
        then [''/data/cell_Ex_488_Em_525/metadata/processing.json'']
      else if pattern = ''/done/cell_*'' then [''/done/cell_Ex_488_Em_525'']
      else if pattern = ''/done/cell_Ex_488_Em_525/metadata/*processing*.json''
        then [''/done/cell_Ex_488_Em_525/metadata/processing.json'']
      else if pattern = ''/done/quant_*'' then [''/done/quant_Ex_488_Em_525'']
      else if pattern = ''/done/quant_Ex_488_Em_525/metadata/*processing*.json''
        then [''/done/quant_Ex_488_Em_525/metadata/processing.json'']
      else [])"

definition example_env :: "string env" where
  "example_env =
     \<lparr>files = example_files, is_dir = (\<lambda>name. name = ''/data'' \<or> name = ''/done''),
      glob = example_glob, abspath = (\<lambda>name. CHR ''/'' # remove_all ''../'' name),
      returncode = (\<lambda>command. 0),
      validate_python = example_validate,
      derived_data_description = (\<lambda>raw process_name. Inl OSError)\<rparr>"

text \<open>The same file system for a process started beside \<^verbatim>\<open>/done\<close> as its data folder.\<close>

definition example_clean_env :: "string env" where
  "example_clean_env =
     example_env
       \<lparr>abspath := (\<lambda>name. if name = ''../data'' then ''/done'' else ''/results'')\<rparr>"

text \<open>The document that \<^verbatim>\<open>generate_processing\<close> builds of the given data processes.\<close>

definition example_document :: "string list \<Rightarrow> string processing" where
  "example_document dps =
     \<lparr>processing_pipeline =
        \<lparr>data_processes = dps, processor_full_name = ''Camilo Laiton'',
         pipeline_version = PIPELINE_VERSION,
         pipeline_url = ''https://github.com/AllenNeuralDynamics/aind-smartspim-pipeline''\<rparr>,
      notes = ''This processing was generated by compiling independent processing jsons for every step''\<rparr>"

definition example_config :: ng_config where
  "example_config =
     \<lparr>cfg_bucket_path = ''aind-open-data'', cfg_output_folder = ''/results'',
      cfg_ng_base_url = ''https://aind-neuroglancer-sauujisjxq-uw.a.run.app'',
      z_res = JInt 2, y_res = JInt 1, x_res = JInt 1\<rparr>"

text \<open>
  The order of dispatch mode in the words of the specification: the destripe fragments,
  then the fragments of the flatfield folders, then those of the stitch, fuse and CCF
  folders.
\<close>

definition spec_copy_order ::
  "'dp env \<Rightarrow> string list \<Rightarrow> string list \<Rightarrow> string list \<Rightarrow> string list \<Rightarrow> string list
     \<Rightarrow> string list" where
  "spec_copy_order env destripe_files flatfield_channels stitch_folders fuse_folders
     ccf_folders =
     destripe_files
     @ concat (map (processing_jsons env) flatfield_channels)
     @ concat (map (processing_jsons env) stitch_folders)
     @ concat (map (processing_jsons env) fuse_folders)
     @ concat (map (processing_jsons env) ccf_folders)"

section \<open>Properties of the colour mappers\<close>

lemma variant_a_high: "750 \<le> w \<Longrightarrow> wavelength_to_hex w = Inr 0xF00050"
  by (simp add: wavelength_to_hex_def color_map_def)

lemma variant_a_low: "w < 460 \<Longrightarrow> wavelength_to_hex w = Inr 0x690AFE"
  by (simp add: wavelength_to_hex_def color_map_def)

lemma variant_b_bound:
  "\<forall>(ub, hex_val) \<in> set color_map_alternate. wavelength_to_hex_alternate ub = Inr hex_val"
  by (simp add: wavelength_to_hex_alternate_def color_map_alternate_def)

lemma variant_b_next:
  "\<forall>((ub, hex_val), (ub', hex_val')) \<in> set (zip color_map_alternate (tl color_map_alternate)).
     wavelength_to_hex_alternate (ub + 1) = Inr hex_val'"
  by (simp add: wavelength_to_hex_alternate_def color_map_alternate_def)

lemma variant_b_high: "700 < w \<Longrightarrow> wavelength_to_hex_alternate w = Inr 0xA81F1F"
  by (simp add: wavelength_to_hex_alternate_def color_map_alternate_def)

text \<open>
  Claim C8. Variant A saturates at both ends: every wavelength from 750 upwards gets the
  colour bound to 750 and every wavelength below 460 the colour bound to 460, never an
  error. Variant B is inclusive: a wavelength equal to a bound of the table gets that
  bound's colour, the bound plus one gets the colour of the next entry, and a wavelength
  above the last bound (700) gets the last entry's colour.
\<close>

theorem color_mapper_boundaries:
  "map_of color_map 750 = Some 0xF00050 \<and> map_of color_map 460 = Some 0x690AFE
   \<and> (750 \<le> w \<longrightarrow> wavelength_to_hex w = Inr 0xF00050)
   \<and> (w < 460 \<longrightarrow> wavelength_to_hex w = Inr 0x690AFE)
   \<and> (\<forall>(ub, hex_val) \<in> set color_map_alternate. wavelength_to_hex_alternate ub = Inr hex_val)
   \<and> (\<forall>((ub, hex_val), (ub', hex_val')) \<in> set (zip color_map_alternate (tl color_map_alternate)).
         wavelength_to_hex_alternate (ub + 1) = Inr hex_val')
   \<and> last color_map_alternate = (700, 0xA81F1F)
   \<and> (700 < w \<longrightarrow> wavelength_to_hex_alternate w = Inr 0xA81F1F)"
  using variant_a_high [of w] variant_a_low [of w] variant_b_bound variant_b_next
    variant_b_high [of w]
  by (simp add: color_map_def color_map_alternate_def)

theorem color_mapper_boundaries_witness:
  "wavelength_to_hex 750 = Inr 0xF00050 \<and> wavelength_to_hex 459 = Inr 0x690AFE
   \<and> wavelength_to_hex_alternate 530 = Inr 0x92FF42
   \<and> wavelength_to_hex_alternate 531 = Inr 0xE4FE41
   \<and> wavelength_to_hex_alternate 701 = Inr 0xA81F1F"
  using color_mapper_boundaries [of 750] color_mapper_boundaries [of 459]
    color_mapper_boundaries [of 701]
  by (simp add: color_map_alternate_def)

section \<open>Properties of the provenance compiler\<close>

lemma append_each_append: "append_each acc ds = acc @ ds"
  by (induction ds arbitrary: acc) simp_all

lemma read_fragments_all_valid:
  "list_all2 (\<lambda>p f. load_fragment env p = Inr f) paths frags \<Longrightarrow>
   read_fragments env acc paths =
     Inr (acc @ concat (map (\<lambda>f. data_processes (processing_pipeline f)) frags))"
proof (induction paths frags arbitrary: acc rule: list_all2_induct)
  case Nil
  show ?case by simp
next
  case (Cons p ps f fs)
  from Cons.hyps(1) Cons.IH [of "acc @ data_processes (processing_pipeline f)"]
  show ?case by (simp add: append_each_append)
qed

lemma read_fragments_first_failure:
  "\<exists>p \<in> set paths. \<exists>e. load_fragment env p = Inl e \<Longrightarrow>
   \<exists>p e. p \<in> set paths \<and> load_fragment env p = Inl e \<and> read_fragments env acc paths = Inl e"
proof (induction paths arbitrary: acc)
  case Nil
  then show ?case by simp
next
  case (Cons p ps)
  show ?case
  proof (cases "load_fragment env p")
    case (Inl e)
    then have "read_fragments env acc (p # ps) = Inl e" by simp
    with Inl show ?thesis by auto
  next
    case (Inr f)
    with Cons.prems have "\<exists>q \<in> set ps. \<exists>e. load_fragment env q = Inl e" by auto
    from Cons.IH [OF this, of "append_each acc (data_processes (processing_pipeline f))"]
    obtain q e where "q \<in> set ps" "load_fragment env q = Inl e"
      "read_fragments env (append_each acc (data_processes (processing_pipeline f))) ps = Inl e"
      by blast
    with Inr show ?thesis by auto
  qed
qed

lemma load_fragment_is_Exception: "load_fragment env p = Inl e \<Longrightarrow> is_Exception e"
  by (auto simp: load_fragment_def or_raise_def read_json_as_dict_def
      split: if_splits file_state.splits sum.splits)

lemma compile_fails:
  assumes "\<exists>p \<in> set paths. \<exists>e. load_fragment env p = Inl e"
  shows "\<exists>p e. p \<in> set paths \<and> load_fragment env p = Inl e \<and> is_Exception e
           \<and> compile_processing_jsons env paths dest full_name version = (Inl e, [])"
proof -
  from read_fragments_first_failure [OF assms, of "[]"]
  obtain p e where pe: "p \<in> set paths" "load_fragment env p = Inl e"
    "read_fragments env [] paths = Inl e"
    by blast
  from pe(2) have "is_Exception e" by (rule load_fragment_is_Exception)
  with pe show ?thesis by (auto simp: compile_processing_jsons_def)
qed

text \<open>
  Claim C1. When every fragment of the given sequence reads and validates, the compiler
  writes one document whose data processes are the concatenation of the fragments' data
  processes, fragment after fragment and each fragment's entries in their own order. For
  the empty sequence it writes a document with no data process and raises nothing.
\<close>

theorem compile_preserves_order:
  assumes "list_all2 (\<lambda>p f. load_fragment env p = Inr f) paths frags"
  shows "(\<exists>doc. compile_processing_jsons env paths dest full_name version =
                  (Inr dest, [WriteProcessing dest doc])
               \<and> data_processes (processing_pipeline doc) =
                   concat (map (\<lambda>f. data_processes (processing_pipeline f)) frags))
         \<and> (\<exists>doc. compile_processing_jsons env [] dest full_name version =
                     (Inr dest, [WriteProcessing dest doc])
                 \<and> data_processes (processing_pipeline doc) = [])"
  using read_fragments_all_valid [OF assms, of "[]"]
  by (simp add: compile_processing_jsons_def generate_processing_def)

theorem compile_preserves_order_witness:
  "\<exists>doc. compile_processing_jsons example_env [''/data/A.json'', ''/data/B.json''] ''/results''
            ''Camilo Laiton'' ''2.0.2'' = (Inr ''/results'', [WriteProcessing ''/results'' doc])
       \<and> data_processes (processing_pipeline doc) = [''import'', ''destripe'', ''stitch'']"
proof -
  have a: "load_fragment example_env ''/data/A.json'' =
             Inr \<lparr>processing_pipeline =
                    \<lparr>data_processes = [''import'', ''destripe''], processor_full_name = [],
                     pipeline_version = [], pipeline_url = []\<rparr>, notes = []\<rparr>"
    by (simp add: load_fragment_def or_raise_def read_json_as_dict_def exists_path_def
        example_env_def example_files_def example_validate_def fragment_of_def)
  have b: "load_fragment example_env ''/data/B.json'' =
             Inr \<lparr>processing_pipeline =
                    \<lparr>data_processes = [''stitch''], processor_full_name = [],
                     pipeline_version = [], pipeline_url = []\<rparr>, notes = []\<rparr>"
    by (simp add: load_fragment_def or_raise_def read_json_as_dict_def exists_path_def
        example_env_def example_files_def example_validate_def fragment_of_def)
  from a b have "list_all2 (\<lambda>p f. load_fragment example_env p = Inr f)
      [''/data/A.json'', ''/data/B.json'']
      [\<lparr>processing_pipeline =
          \<lparr>data_processes = [''import'', ''destripe''], processor_full_name = [],
           pipeline_version = [], pipeline_url = []\<rparr>, notes = []\<rparr>,
       \<lparr>processing_pipeline =
          \<lparr>data_processes = [''stitch''], processor_full_name = [],
           pipeline_version = [], pipeline_url = []\<rparr>, notes = []\<rparr>]"
    by simp
  from compile_preserves_order [OF this, of "''/results''" "''Camilo Laiton''" "''2.0.2''"]
  show ?thesis by simp
qed

text \<open>
  Claim C2. When some fragment of the sequence fails to read, to parse or to validate,
  the compiler raises the error of a failing fragment, an exception of class
  \<^verbatim>\<open>Exception\<close>, and has written nothing: no fragment is skipped and no partial
  document is produced. A fragment whose file does not exist is read as the empty
  dictionary and fails when the schema rejects the empty dictionary.
\<close>

theorem compile_failure_writes_nothing:
  assumes "\<exists>p \<in> set paths. \<exists>e. load_fragment env p = Inl e"
  shows "\<exists>p e. p \<in> set paths \<and> load_fragment env p = Inl e \<and> is_Exception e
           \<and> compile_processing_jsons env paths dest full_name version = (Inl e, [])"
  using assms by (rule compile_fails)

theorem compile_failure_writes_nothing_witness:
  "compile_processing_jsons example_env [''/data/A.json'', ''/data/broken.json'', ''/data/B.json'']
     ''/results'' ''Camilo Laiton'' ''2.0.2'' = (Inl JSONDecodeError, [])
   \<and> compile_processing_jsons example_env [''/data/A.json'', ''/data/invalid.json'']
       ''/results'' ''Camilo Laiton'' ''2.0.2'' =
       (Inl (ValidationError ''processing_pipeline: field required''), [])
   \<and> compile_processing_jsons example_env [''/data/fused/fusion_Ex_488_Em_525/metadata'']
       ''/results'' ''Camilo Laiton'' ''2.0.2'' = (Inl OSError, [])"
proof -
  have bad: "load_fragment example_env ''/data/broken.json'' = Inl JSONDecodeError"
    by (simp add: load_fragment_def or_raise_def read_json_as_dict_def exists_path_def
        example_env_def example_files_def)
  have invalid: "load_fragment example_env ''/data/invalid.json'' =
      Inl (ValidationError ''processing_pipeline: field required'')"
    by (simp add: load_fragment_def or_raise_def read_json_as_dict_def exists_path_def
        example_env_def example_files_def example_validate_def)
  have folder: "load_fragment example_env ''/data/fused/fusion_Ex_488_Em_525/metadata'' =
      Inl OSError"
    by (simp add: load_fragment_def or_raise_def read_json_as_dict_def exists_path_def
        example_env_def example_files_def)
  have a: "\<exists>f. load_fragment example_env ''/data/A.json'' = Inr f"
    by (simp add: load_fragment_def or_raise_def read_json_as_dict_def exists_path_def
        example_env_def example_files_def example_validate_def fragment_of_def)
  have b: "\<exists>f. load_fragment example_env ''/data/B.json'' = Inr f"
    by (simp add: load_fragment_def or_raise_def read_json_as_dict_def exists_path_def
        example_env_def example_files_def example_validate_def fragment_of_def)
  have "\<exists>p \<in> set [''/data/A.json'', ''/data/broken.json'', ''/data/B.json''].
          \<exists>e. load_fragment example_env p = Inl e"
    using bad by simp
  from compile_failure_writes_nothing [OF this, of "''/results''" "''Camilo Laiton''" "''2.0.2''"]
  have one: "compile_processing_jsons example_env
      [''/data/A.json'', ''/data/broken.json'', ''/data/B.json'']
      ''/results'' ''Camilo Laiton'' ''2.0.2'' = (Inl JSONDecodeError, [])"
    using bad a b by auto
  have "\<exists>p \<in> set [''/data/A.json'', ''/data/invalid.json''].
          \<exists>e. load_fragment example_env p = Inl e"
    using invalid by simp
  from compile_failure_writes_nothing [OF this, of "''/results''" "''Camilo Laiton''" "''2.0.2''"]
  have two: "compile_processing_jsons example_env [''/data/A.json'', ''/data/invalid.json'']
       ''/results'' ''Camilo Laiton'' ''2.0.2'' =
       (Inl (ValidationError ''processing_pipeline: field required''), [])"
    using invalid a by auto
  have "\<exists>p \<in> set [''/data/fused/fusion_Ex_488_Em_525/metadata''].
          \<exists>e. load_fragment example_env p = Inl e"
    using folder by simp
  from compile_failure_writes_nothing [OF this, of "''/results''" "''Camilo Laiton''" "''2.0.2''"]
  have three: "compile_processing_jsons example_env [''/data/fused/fusion_Ex_488_Em_525/metadata'']
       ''/results'' ''Camilo Laiton'' ''2.0.2'' = (Inl OSError, [])"
    using folder by auto
  from one two three show ?thesis by simp
qed

section \<open>Properties of the fan-out\<close>

lemma map_of_dict_set: "map_of (dict_set d k v) = (map_of d)(k \<mapsto> v)"
  by (induction d k v rule: dict_set.induct) auto

lemma dispatch_round_task:
  assumes "map_of d ''segmentation'' = Some (JDict sd)"
  shows "\<exists>d' sd' task.
           (dispatch_round rf bg (JDict d) ch :: ('dp, json) io) =
             (Inr (JDict d'), [WriteJson (task_file rf ch) task])
         \<and> map_of d' ''segmentation'' = Some (JDict sd')
         \<and> channel_task bg ch task"
  using assms
  by (simp add: dispatch_round_def setitem2_def or_raise_def map_of_dict_set and_then_def
      channel_task_def get2_def task_file_def)

lemma dispatch_loop_tasks:
  assumes "map_of d ''segmentation'' = Some (JDict sd)"
  shows "\<exists>d' tasks.
           (dispatch_loop rf bg (JDict d) chans :: ('dp, json) io) =
             (Inr (JDict d'), map2 (\<lambda>ch task. WriteJson (task_file rf ch) task) chans tasks)
         \<and> list_all2 (channel_task bg) chans tasks"
  using assms
proof (induction chans arbitrary: d sd)
  case Nil
  then show ?case by simp
next
  case (Cons ch chans)
  from dispatch_round_task [OF Cons.prems, of rf bg ch]
  obtain d1 sd1 task where r: "(dispatch_round rf bg (JDict d) ch :: ('dp, json) io) = (Inr (JDict d1), [WriteJson (task_file rf ch) task])"
    "map_of d1 ''segmentation'' = Some (JDict sd1)" "channel_task bg ch task"
    by blast
  from Cons.IH [OF r(2)] obtain d' tasks where l:
    "(dispatch_loop rf bg (JDict d1) chans :: ('dp, json) io) =
       (Inr (JDict d'), map2 (\<lambda>ch task. WriteJson (task_file rf ch) task) chans tasks)"
    "list_all2 (channel_task bg) chans tasks"
    by blast
  have "(dispatch_loop rf bg (JDict d) (ch # chans) :: ('dp, json) io) =
      (Inr (JDict d'), map2 (\<lambda>ch task. WriteJson (task_file rf ch) task) (ch # chans) (task # tasks))"
    using r(1) l(1) by (simp add: and_then_def)
  moreover have "list_all2 (channel_task bg) (ch # chans) (task # tasks)"
    using r(3) l(2) by simp
  ultimately show ?case by blast
qed

lemma getitem_dict: "getitem x k = Inr v \<Longrightarrow> \<exists>d. x = JDict d \<and> map_of d k = Some v"
  by (cases x) (auto split: option.splits)

lemma str_small: "py_str (JInt 1) = ''1''" "py_str (JInt 2) = ''2''" "py_str (JInt 3) = ''3''"
  by (simp_all add: str_int_def digits_of.simps digit_char_def)

lemma dispatch_prelude:
  assumes "getitem pm ''pipeline_processing'' = Inr pc"
    and "get2 pc ''segmentation'' ''channels'' = Inr chans"
    and "get2 pc ''registration'' ''channels'' = Inr (JList (first # others))"
  shows "\<exists>pmd d sd. pm = JDict pmd \<and> pc = JDict d \<and> map_of d ''segmentation'' = Some (JDict sd)
           \<and> (dispatch pm rf :: ('dp, json) io) =
               and_then (pure (py_len chans)) (\<lambda>n.
                 if n = 0
                 then (Inl (BaseException ''Stopping pipeline, no segmentation channels.''), [])
                 else
                   and_then (pure (py_iter chans)) (\<lambda>channels.
                   and_then (dispatch_loop rf first (JDict d) channels) (\<lambda>pipeline_config'.
                   pure (setitem (JDict pmd) ''pipeline_processing'' pipeline_config'))))"
proof -
  from assms(1) obtain pmd where pm: "pm = JDict pmd" "map_of pmd ''pipeline_processing'' = Some pc"
    using getitem_dict by blast
  from assms(2) obtain seg where seg: "getitem pc ''segmentation'' = Inr seg"
    "getitem seg ''channels'' = Inr chans"
    by (auto simp: get2_def or_raise_def split: sum.splits)
  from assms(3) obtain reg where reg: "getitem pc ''registration'' = Inr reg"
    "getitem reg ''channels'' = Inr (JList (first # others))"
    by (auto simp: get2_def or_raise_def split: sum.splits)
  from seg(1) obtain d where pc: "pc = JDict d" "map_of d ''segmentation'' = Some seg"
    using getitem_dict by blast
  from seg(2) obtain sd where sd: "seg = JDict sd"
    using getitem_dict by blast
  from pc have t: "truthy pc" by auto
  have g: "dict_get pm ''pipeline_processing'' = Inr pc"
    using pm by simp
  have "(dispatch pm rf :: ('dp, json) io) =
               and_then (pure (py_len chans)) (\<lambda>n.
                 if n = 0
                 then (Inl (BaseException ''Stopping pipeline, no segmentation channels.''), [])
                 else
                   and_then (pure (py_iter chans)) (\<lambda>channels.
                   and_then (dispatch_loop rf first pc channels) (\<lambda>pipeline_config'.
                   pure (setitem pm ''pipeline_processing'' pipeline_config'))))"
    unfolding dispatch_def
    by (simp add: g t seg reg assms(1) and_then_def pure_def or_raise_def)
  with pm(1) pc sd show ?thesis by blast
qed

text \<open>
  Claim C5. For a manifest whose \<^verbatim>\<open>pipeline_processing\<close> has the segmentation channels
  \<open>[1, 2, 3]\<close> and a registration channel list starting with 0, \<^verbatim>\<open>dispatch\<close> raises
  nothing and writes exactly three files, one per channel and named after it. The file of
  channel \<open>c\<close> has \<^verbatim>\<open>channel\<close> \<open>c\<close> and \<^verbatim>\<open>background_channel\<close> 0 in its segmentation
  block, and all three have the same \<^verbatim>\<open>input_data\<close> and the same \<^verbatim>\<open>fused_folder\<close> of
  the quantification block.
\<close>

theorem dispatch_three_channels:
  assumes "getitem pm ''pipeline_processing'' = Inr pc"
    and "get2 pc ''segmentation'' ''channels'' = Inr (JList [JInt 1, JInt 2, JInt 3])"
    and "get2 pc ''registration'' ''channels'' = Inr (JList (JInt 0 # others))"
  shows "\<exists>pm' t1 t2 t3.
           (dispatch pm rf :: ('dp, json) io) =
             (Inr pm',
              [WriteJson (rf @ ''/segmentation_processing_manifest_1.json'') t1,
               WriteJson (rf @ ''/segmentation_processing_manifest_2.json'') t2,
               WriteJson (rf @ ''/segmentation_processing_manifest_3.json'') t3])
         \<and> channel_task (JInt 0) (JInt 1) t1
         \<and> channel_task (JInt 0) (JInt 2) t2
         \<and> channel_task (JInt 0) (JInt 3) t3"
proof -
  from dispatch_prelude [OF assms, of rf]
  obtain pmd d sd where p: "pm = JDict pmd" "pc = JDict d"
    "map_of d ''segmentation'' = Some (JDict sd)"
    "(dispatch pm rf :: ('dp, json) io) =
       and_then (pure (py_len (JList [JInt 1, JInt 2, JInt 3]))) (\<lambda>n.
         if n = 0
         then (Inl (BaseException ''Stopping pipeline, no segmentation channels.''), [])
         else
           and_then (pure (py_iter (JList [JInt 1, JInt 2, JInt 3]))) (\<lambda>channels.
           and_then (dispatch_loop rf (JInt 0) (JDict d) channels) (\<lambda>pipeline_config'.
           pure (setitem (JDict pmd) ''pipeline_processing'' pipeline_config'))))"
    by blast
  from dispatch_loop_tasks [OF p(3), of rf "JInt 0" "[JInt 1, JInt 2, JInt 3]"]
  obtain d' tasks where l:
    "(dispatch_loop rf (JInt 0) (JDict d) [JInt 1, JInt 2, JInt 3] :: ('dp, json) io) =
       (Inr (JDict d'),
        map2 (\<lambda>ch task. WriteJson (task_file rf ch) task) [JInt 1, JInt 2, JInt 3] tasks)"
    "list_all2 (channel_task (JInt 0)) [JInt 1, JInt 2, JInt 3] tasks"
    by blast
  from l(2) obtain t1 t2 t3 where t: "tasks = [t1, t2, t3]"
    "channel_task (JInt 0) (JInt 1) t1" "channel_task (JInt 0) (JInt 2) t2"
    "channel_task (JInt 0) (JInt 3) t3"
    by (auto simp: list_all2_Cons1)
  have "(dispatch pm rf :: ('dp, json) io) =
          (Inr (JDict (dict_set pmd ''pipeline_processing'' (JDict d'))),
           [WriteJson (rf @ ''/segmentation_processing_manifest_1.json'') t1,
            WriteJson (rf @ ''/segmentation_processing_manifest_2.json'') t2,
            WriteJson (rf @ ''/segmentation_processing_manifest_3.json'') t3])"
    unfolding p(4) l(1) [unfolded t(1)] and_then_def pure_def
    by (simp add: l(1) [unfolded t(1)] task_file_def str_small del: dispatch_loop.simps py_str.simps)
  with t show ?thesis by blast
qed

theorem dispatch_three_channels_witness:
  "\<exists>pm' t1 t2 t3.
     (dispatch (example_manifest [JInt 1, JInt 2, JInt 3]) ''/results'' :: (string, json) io) =
       (Inr pm',
        [WriteJson ''/results/segmentation_processing_manifest_1.json'' t1,
         WriteJson ''/results/segmentation_processing_manifest_2.json'' t2,
         WriteJson ''/results/segmentation_processing_manifest_3.json'' t3])
     \<and> channel_task (JInt 0) (JInt 1) t1
     \<and> channel_task (JInt 0) (JInt 2) t2
     \<and> channel_task (JInt 0) (JInt 3) t3"
  using dispatch_three_channels
    [of "example_manifest [JInt 1, JInt 2, JInt 3]"
        "example_pipeline [JInt 1, JInt 2, JInt 3]" "[]" "''/results''"]
  by (simp add: example_manifest_def example_pipeline_def get2_def or_raise_def)

text \<open>
  Claim C6. For a manifest whose \<^verbatim>\<open>pipeline_processing\<close> is present, whose registration
  channel list is not empty and whose segmentation channel list is empty, \<^verbatim>\<open>dispatch\<close>
  raises the exception with the message "Stopping pipeline, no segmentation channels."
  and has written no file.
\<close>

theorem dispatch_no_channels:
  assumes "getitem pm ''pipeline_processing'' = Inr pc"
    and "get2 pc ''segmentation'' ''channels'' = Inr (JList [])"
    and "get2 pc ''registration'' ''channels'' = Inr (JList (first # others))"
  shows "(dispatch pm rf :: ('dp, json) io) =
           (Inl (BaseException ''Stopping pipeline, no segmentation channels.''), [])"
proof -
  from dispatch_prelude [OF assms, of rf]
  show ?thesis by (auto simp: and_then_def pure_def)
qed

theorem dispatch_no_channels_witness:
  "(dispatch (example_manifest []) ''/results'' :: (string, json) io) =
     (Inl (BaseException ''Stopping pipeline, no segmentation channels.''), [])"
  using dispatch_no_channels [of "example_manifest []" "example_pipeline []" "JInt 0" "[]" "''/results''"]
  by (simp add: example_manifest_def example_pipeline_def get2_def or_raise_def)

section \<open>Properties of the fragment discovery\<close>

lemma collect_processing_map:
  "collect_processing env acc folders = acc @ map (processing_jsons env) folders"
  by (induction folders arbitrary: acc) simp_all

lemma flatten_concat: "flatten acc sub_lists = acc @ concat sub_lists"
  by (induction sub_lists arbitrary: acc) simp_all

text \<open>
  Claim C4, as amended. In clean mode \<^verbatim>\<open>clean_up\<close> hands the compiler the processing file
  of the raw-metadata stage first, then the fragments of the segmentation folders, then
  those of the quantification folders, folder by folder in the order the folders were
  found. In dispatch mode \<^verbatim>\<open>copy_intermediate_data\<close> hands the compiler, inside its
  \<^verbatim>\<open>try\<close>, the destripe files, then the fragments of the stitch folders, then those of
  the fuse folders, then those of the CCF folders; the flatfield folders contribute no
  fragment and are met again only in the relocation.
\<close>

theorem fragment_discovery_order:
  "clean_up env processing_manifest data_folder results_folder cloud_mode =
     (if \<not> is_dir env data_folder then (Inl OSError, [])
      else
        and_then (compile_processing_jsons env
                    ([data_folder @ ''/output_aind_metadata/processing.json'']
                     @ concat (map (processing_jsons env) (glob env (data_folder @ ''/cell_*'')))
                     @ concat (map (processing_jsons env) (glob env (data_folder @ ''/quant_*''))))
                    results_folder ''Camilo Laiton'' PIPELINE_VERSION) (\<lambda>output_filename.
        clean_up_relocate env processing_manifest results_folder cloud_mode
          (glob env (data_folder @ ''/cell_*'')) (glob env (data_folder @ ''/quant_*''))))
   \<and> copy_intermediate_data env output_dispatch_metadata destripe_files flatfield_channels
       stitch_folders fuse_folders ccf_folders new_dataset_name output_path results_folder
       cloud_mode =
       and_then (case compile_processing_jsons env
                        (destripe_files
                         @ concat (map (processing_jsons env) stitch_folders)
                         @ concat (map (processing_jsons env) fuse_folders)
                         @ concat (map (processing_jsons env) ccf_folders))
                        output_dispatch_metadata ''Camilo Laiton'' PIPELINE_VERSION of
                   (Inl e, past) \<Rightarrow> if is_Exception e then (Inr None, past) else (Inl e, past)
                 | (Inr output_filename, past) \<Rightarrow> (Inr (Some output_filename), past))
         (\<lambda>output_filename.
       relocate env output_dispatch_metadata flatfield_channels stitch_folders fuse_folders
         ccf_folders new_dataset_name output_path results_folder cloud_mode)"
  by (simp add: clean_up_def copy_intermediate_data_def try_compile_def
      clean_processing_paths_def copy_processing_paths_def collect_processing_map
      flatten_concat Let_def)

theorem fragment_discovery_order_witness:
  "clean_up example_env example_modified_manifest ''/done'' ''/results'' True =
     (Inr (),
      [WriteProcessing ''/results''
         (example_document [''import'', ''stitch'', ''segmentation'', ''quantification'']),
       Exec ''aws s3 mv /results/processing.json s3://aind-open-data/SmartSPIM_1_stitched/processing.json'',
       Exec ''aws s3 mv --recursive /done/cell_Ex_488_Em_525 s3://aind-open-data/SmartSPIM_1_stitched/image_cell_segmentation/Ex_488_Em_525'',
       Exec ''aws s3 mv --recursive /done/quant_Ex_488_Em_525 s3://aind-open-data/SmartSPIM_1_stitched/image_cell_quantification/Ex_488_Em_525'',
       WriteText ''/results/output_cell.txt''
         (''Results of cell segmentation saved in: s3://aind-open-data/SmartSPIM_1_stitched/image_cell_segmentation'' @ [CHR 0x0A]),
       WriteText ''/results/output_quantification.txt''
         (''Results of quantification saved in: s3://aind-open-data/SmartSPIM_1_stitched/image_cell_quantification'' @ [CHR 0x0A])])
   \<and> copy_intermediate_data example_env ''/results/output_aind_metadata'' [''/data/A.json'']
       [''/data/flatfield_correction_Ex_488_Em_525''] [''/data/stitched/stitch_Ex_488_Em_525'']
       [] [''/data/cell_Ex_488_Em_525''] ''SmartSPIM_1_stitched'' ''aind-open-data''
       ''/results'' True =
     (Inr (''s3://aind-open-data/SmartSPIM_1_stitched'',
           ''s3://aind-open-data/SmartSPIM_1_stitched/image_tile_fusing/OMEZarr''),
      [WriteProcessing ''/results/output_aind_metadata''
         (example_document [''import'', ''destripe'', ''stitch'', ''segmentation'']),
       Exec ''aws s3 cp --recursive /results/output_aind_metadata s3://aind-open-data/SmartSPIM_1_stitched'',
       Exec ''aws s3 cp --recursive /data/flatfield_correction_Ex_488_Em_525 s3://aind-open-data/SmartSPIM_1_stitched/image_tile_fusing/metadata/flatfield_correction/flatfield_correction_Ex_488_Em_525'',
       Exec ''aws s3 cp --recursive /data/stitched/stitch_Ex_488_Em_525/metadata s3://aind-open-data/SmartSPIM_1_stitched/image_tile_fusing/metadata/stitch_Ex_488_Em_525'',
       Exec ''aws s3 mv --recursive /data/cell_Ex_488_Em_525 s3://aind-open-data/SmartSPIM_1_stitched/image_atlas_alignment/Ex_488_Em_525'',
       WriteText ''/results/output_stitching.txt''
         (''Stitched dataset saved in: s3://aind-open-data/SmartSPIM_1_stitched'' @ [CHR 0x0A])])"
proof -
  note order = fragment_discovery_order
    [where env = example_env and processing_manifest = example_modified_manifest
       and data_folder = "''/done''" and results_folder = "''/results''" and cloud_mode = True
       and output_dispatch_metadata = "''/results/output_aind_metadata''"
       and destripe_files = "[''/data/A.json'']"
       and flatfield_channels = "[''/data/flatfield_correction_Ex_488_Em_525'']"
       and stitch_folders = "[''/data/stitched/stitch_Ex_488_Em_525'']"
       and fuse_folders = "[]" and ccf_folders = "[''/data/cell_Ex_488_Em_525'']"
       and new_dataset_name = "''SmartSPIM_1_stitched''" and output_path = "''aind-open-data''"]
  have clean: "(if \<not> is_dir example_env ''/done'' then (Inl OSError, [])
      else
        and_then (compile_processing_jsons example_env
                    ([''/done'' @ ''/output_aind_metadata/processing.json'']
                     @ concat (map (processing_jsons example_env)
                                 (glob example_env (''/done'' @ ''/cell_*'')))
                     @ concat (map (processing_jsons example_env)
                                 (glob example_env (''/done'' @ ''/quant_*''))))
                    ''/results'' ''Camilo Laiton'' PIPELINE_VERSION) (\<lambda>output_filename.
        clean_up_relocate example_env example_modified_manifest ''/results'' True
          (glob example_env (''/done'' @ ''/cell_*''))
          (glob example_env (''/done'' @ ''/quant_*'')))) =
     (Inr (),
      [WriteProcessing ''/results''
         (example_document [''import'', ''stitch'', ''segmentation'', ''quantification'']),
       Exec ''aws s3 mv /results/processing.json s3://aind-open-data/SmartSPIM_1_stitched/processing.json'',
       Exec ''aws s3 mv --recursive /done/cell_Ex_488_Em_525 s3://aind-open-data/SmartSPIM_1_stitched/image_cell_segmentation/Ex_488_Em_525'',
       Exec ''aws s3 mv --recursive /done/quant_Ex_488_Em_525 s3://aind-open-data/SmartSPIM_1_stitched/image_cell_quantification/Ex_488_Em_525'',
       WriteText ''/results/output_cell.txt''
         (''Results of cell segmentation saved in: s3://aind-open-data/SmartSPIM_1_stitched/image_cell_segmentation'' @ [CHR 0x0A]),
       WriteText ''/results/output_quantification.txt''
         (''Results of quantification saved in: s3://aind-open-data/SmartSPIM_1_stitched/image_cell_quantification'' @ [CHR 0x0A])])"
    by code_simp
  have copy: "and_then (case compile_processing_jsons example_env
                        ([''/data/A.json'']
                         @ concat (map (processing_jsons example_env)
                                     [''/data/stitched/stitch_Ex_488_Em_525''])
                         @ concat (map (processing_jsons example_env) [])
                         @ concat (map (processing_jsons example_env)
                                     [''/data/cell_Ex_488_Em_525'']))
                        ''/results/output_aind_metadata'' ''Camilo Laiton'' PIPELINE_VERSION of
                   (Inl e, past) \<Rightarrow> if is_Exception e then (Inr None, past) else (Inl e, past)
                 | (Inr output_filename, past) \<Rightarrow> (Inr (Some output_filename), past))
         (\<lambda>output_filename.
       relocate example_env ''/results/output_aind_metadata''
         [''/data/flatfield_correction_Ex_488_Em_525'']
         [''/data/stitched/stitch_Ex_488_Em_525''] [] [''/data/cell_Ex_488_Em_525'']
         ''SmartSPIM_1_stitched'' ''aind-open-data'' ''/results'' True) =
     (Inr (''s3://aind-open-data/SmartSPIM_1_stitched'',
           ''s3://aind-open-data/SmartSPIM_1_stitched/image_tile_fusing/OMEZarr''),
      [WriteProcessing ''/results/output_aind_metadata''
         (example_document [''import'', ''destripe'', ''stitch'', ''segmentation'']),
       Exec ''aws s3 cp --recursive /results/output_aind_metadata s3://aind-open-data/SmartSPIM_1_stitched'',
       Exec ''aws s3 cp --recursive /data/flatfield_correction_Ex_488_Em_525 s3://aind-open-data/SmartSPIM_1_stitched/image_tile_fusing/metadata/flatfield_correction/flatfield_correction_Ex_488_Em_525'',
       Exec ''aws s3 cp --recursive /data/stitched/stitch_Ex_488_Em_525/metadata s3://aind-open-data/SmartSPIM_1_stitched/image_tile_fusing/metadata/stitch_Ex_488_Em_525'',
       Exec ''aws s3 mv --recursive /data/cell_Ex_488_Em_525 s3://aind-open-data/SmartSPIM_1_stitched/image_atlas_alignment/Ex_488_Em_525'',
       WriteText ''/results/output_stitching.txt''
         (''Stitched dataset saved in: s3://aind-open-data/SmartSPIM_1_stitched'' @ [CHR 0x0A])])"
    by code_simp
  from order show ?thesis
    unfolding clean copy .
qed

theorem flatfield_not_discovered_counterexample:
  "glob example_env ''/data/flatfield_correction_*'' =
     [''/data/flatfield_correction_Ex_488_Em_525'']
   \<and> spec_copy_order example_env [''/data/A.json'']
       (glob example_env ''/data/flatfield_correction_*'')
       [''/data/stitched/stitch_Ex_488_Em_525''] [] [] =
     [''/data/A.json'', ''/data/flatfield_correction_Ex_488_Em_525/metadata/processing.json'',
      ''/data/stitched/stitch_Ex_488_Em_525/metadata/processing.json'']
   \<and> compile_processing_jsons example_env
       (spec_copy_order example_env [''/data/A.json'']
          (glob example_env ''/data/flatfield_correction_*'')
          [''/data/stitched/stitch_Ex_488_Em_525''] [] [])
       ''/results/output_aind_metadata'' ''Camilo Laiton'' PIPELINE_VERSION =
     (Inr ''/results/output_aind_metadata'',
      [WriteProcessing ''/results/output_aind_metadata''
         (example_document [''import'', ''destripe'', ''flatfield'', ''stitch''])])
   \<and> take 1 (snd (copy_intermediate_data example_env ''/results/output_aind_metadata''
                     [''/data/A.json''] (glob example_env ''/data/flatfield_correction_*'')
                     [''/data/stitched/stitch_Ex_488_Em_525''] [] [] ''SmartSPIM_1_stitched''
                     ''aind-open-data'' ''/results'' True)) =
     [WriteProcessing ''/results/output_aind_metadata''
        (example_document [''import'', ''destripe'', ''stitch''])]
   \<and> copy_intermediate_data example_env ''/results/output_aind_metadata'' [''/data/A.json'']
       (glob example_env ''/data/flatfield_correction_*'')
       [''/data/stitched/stitch_Ex_488_Em_525''] [] [] ''SmartSPIM_1_stitched''
       ''aind-open-data'' ''/results'' True
     \<noteq> and_then (try_compile example_env
                   (spec_copy_order example_env [''/data/A.json'']
                      (glob example_env ''/data/flatfield_correction_*'')
                      [''/data/stitched/stitch_Ex_488_Em_525''] [] [])
                   ''/results/output_aind_metadata'') (\<lambda>output_filename.
         relocate example_env ''/results/output_aind_metadata''
           (glob example_env ''/data/flatfield_correction_*'')
           [''/data/stitched/stitch_Ex_488_Em_525''] [] [] ''SmartSPIM_1_stitched''
           ''aind-open-data'' ''/results'' True)"
  by code_simp

section \<open>Properties of the entry point\<close>

lemma split_on_absent: "sep \<notin> set xs \<Longrightarrow> split_on sep xs = [xs]"
  by (induction xs) auto

lemma split_on_first: "sep \<notin> set xs \<Longrightarrow> split_on sep (xs @ sep # ys) = xs # split_on sep ys"
  by (induction xs) auto

lemma char_of_comma: "k < 256 \<Longrightarrow> k \<noteq> 44 \<Longrightarrow> (char_of (k::nat) = CHR '','') = False"
proof -
  assume k: "k < 256" "k \<noteq> 44"
  have "char_of k \<noteq> CHR '',''"
  proof
    assume "char_of k = CHR '',''"
    then have "(of_char (char_of k) :: nat) = of_char CHR '',''" by simp
    with k show False by simp
  qed
  then show ?thesis by simp
qed

lemma split_on_first_Cons:
  "sep \<notin> set (x # xs) \<Longrightarrow> split_on sep (x # xs @ sep # ys) = (x # xs) # split_on sep ys"
  using split_on_first [of sep "x # xs" ys] by simp

lemma digit_char_not_comma: "digit_char d \<noteq> CHR '',''"
proof (cases "d < 16")
  case True
  then have "''0123456789abcdef'' ! d \<in> set ''0123456789abcdef''"
    by (intro nth_mem) simp
  then have "''0123456789abcdef'' ! d \<noteq> CHR '',''"
    by auto
  with True show ?thesis by (simp add: digit_char_def)
next
  case False
  then show ?thesis by (simp add: digit_char_def)
qed

lemma of_char_bound: "(of_char (c::char) :: nat) < 256"
  by (cases c) simp

lemma casefold_char_comma: "(casefold_char c = CHR '','') = (c = CHR '','')"
  using of_char_bound [of c]
  by (auto simp: casefold_char_def Let_def char_of_comma)

lemma repr_char_no_comma: "c \<noteq> CHR '','' \<Longrightarrow> CHR '','' \<notin> set (repr_char q c)"
proof -
  assume c: "c \<noteq> CHR '',''"
  have "CHR '','' \<notin> set (hex2 c)"
    using digit_char_not_comma [of "of_char c div 16"] digit_char_not_comma [of "of_char c mod 16"]
    by (auto simp: hex2_def Let_def)
  with c show ?thesis
    by (auto simp: repr_char_def)
qed

lemma repr_str_no_comma:
  assumes "CHR '','' \<notin> set a"
  shows "CHR '','' \<notin> set (repr_str a)"
proof -
  have "CHR '','' \<notin> set (repr_char q c)" if "c \<in> set a" for q c
  proof (rule repr_char_no_comma)
    from that assms show "c \<noteq> CHR '',''" by auto
  qed
  then show ?thesis
    by (auto simp: repr_str_def Let_def)
qed

lemma fold_params_append: "fold_params (a @ b) = fold_params a @ fold_params b"
  by (simp add: fold_params_def casefold_def remove_char_def)

lemma fold_params_no_comma:
  assumes "CHR '','' \<notin> set a"
  shows "CHR '','' \<notin> set (fold_params a)"
proof
  assume "CHR '','' \<in> set (fold_params a)"
  then obtain c where c: "c \<in> set a" "casefold_char c = CHR '',''"
    by (auto simp: fold_params_def casefold_def remove_char_def)
  from c(2) have "c = CHR '',''" by (simp add: casefold_char_comma)
  with c(1) assms show False by simp
qed

lemma three_pieces:
  assumes "CHR '','' \<notin> set a" "CHR '','' \<notin> set b" "CHR '','' \<notin> set c"
  shows "param_pieces [a, b, c] =
           [fold_params (repr_str a), CHR '' '' # fold_params (repr_str b), CHR '' '' # fold_params (repr_str c)]"
proof -
  have "str_list [a, b, c] = ''['' @ repr_str a @ '', '' @ repr_str b @ '', '' @ repr_str c @ '']''"
    by (simp add: str_list_def)
  then have "fold_params (str_list [a, b, c]) =
      fold_params (repr_str a) @ CHR '','' # (CHR '' '' # fold_params (repr_str b)) @ CHR '','' # (CHR '' '' #  fold_params (repr_str c))"
    by (simp add: fold_params_append) (simp add: fold_params_def casefold_def remove_char_def casefold_char_def)
  moreover have "CHR '','' \<notin> set (fold_params (repr_str a))" "CHR '','' \<notin> set (CHR '' '' # fold_params (repr_str b))"
    "CHR '','' \<notin> set (CHR '' '' # fold_params (repr_str c))"
    using assms by (simp_all add: fold_params_no_comma repr_str_no_comma)
  ultimately have "split_on CHR '','' (fold_params (str_list [a, b, c])) =
      [fold_params (repr_str a), CHR '' '' # fold_params (repr_str b), CHR '' '' # fold_params (repr_str c)]"
    by (simp add: split_on_first split_on_first_Cons split_on_absent del: split_on.simps)
  then show ?thesis
    by (simp add: param_pieces_def)
qed

lemma fold_params_empty:
  "(fold_params s = []) = (\<forall>x \<in> set s. x = CHR ''['' \<or> x = CHR '']'')"
  by (auto simp: fold_params_def casefold_def remove_char_def filter_empty_conv)

lemma repr_char_bracket:
  assumes "q = CHR 0x27 \<or> q = CHR 0x22" "x = CHR ''['' \<or> x = CHR '']''"
  shows "repr_char q x = [x]"
proof -
  from assms(2) have "printable x"
    by (auto simp: printable_def)
  with assms show ?thesis
    by (auto simp: repr_char_def)
qed

lemma repr_char_head: "repr_char q x = [x] \<or> (\<exists>t. repr_char q x = CHR 0x5C # t)"
  by (simp add: repr_char_def)

lemma repr_char_brackets:
  assumes "q = CHR 0x27 \<or> q = CHR 0x22"
  shows "(\<forall>y \<in> set (repr_char q x). y = CHR ''['' \<or> y = CHR '']'')
           = (x = CHR ''['' \<or> x = CHR '']'')"
proof
  assume a: "\<forall>y \<in> set (repr_char q x). y = CHR ''['' \<or> y = CHR '']''"
  from repr_char_head [of q x] show "x = CHR ''['' \<or> x = CHR '']''"
  proof
    assume "repr_char q x = [x]"
    with a show ?thesis by simp
  next
    assume "\<exists>t. repr_char q x = CHR 0x5C # t"
    then obtain t where "repr_char q x = CHR 0x5C # t" ..
    with a have "CHR 0x5C = CHR ''['' \<or> CHR 0x5C = CHR '']''" by simp
    then show ?thesis by simp
  qed
next
  assume "x = CHR ''['' \<or> x = CHR '']''"
  from repr_char_bracket [OF assms this]
  show "\<forall>y \<in> set (repr_char q x). y = CHR ''['' \<or> y = CHR '']''"
    using \<open>x = CHR ''['' \<or> x = CHR '']''\<close> by simp
qed

lemma fold_repr_empty:
  assumes "q = CHR 0x27 \<or> q = CHR 0x22"
  shows "(fold_params (concat (map (repr_char q) c)) = [])
           = (\<not> (\<exists>x \<in> set c. x \<noteq> CHR ''['' \<and> x \<noteq> CHR '']''))"
proof (induction c)
  case Nil
  show ?case by (simp add: fold_params_def casefold_def remove_char_def)
next
  case (Cons x c)
  have "(fold_params (repr_char q x) = []) = (x = CHR ''['' \<or> x = CHR '']'')"
    unfolding fold_params_empty by (rule repr_char_brackets [OF assms])
  with Cons show ?case
    by (simp add: fold_params_append)
qed

lemma repr_char_comma:
  assumes "q = CHR 0x27 \<or> q = CHR 0x22"
  shows "repr_char q CHR '','' = '',''"
  using assms by (auto simp: repr_char_def printable_def)

lemma fold_params_quote:
  assumes "q = CHR 0x27 \<or> q = CHR 0x22"
  shows "fold_params [q] = [q]" "q \<noteq> CHR '',''"
  using assms by (auto simp: fold_params_def casefold_def remove_char_def casefold_char_def)

lemma fold_params_comma: "fold_params (CHR '','' # t) = CHR '','' # fold_params t"
  by (simp add: fold_params_def casefold_def remove_char_def casefold_char_def)

lemma repr_chars_no_comma:
  assumes "CHR '','' \<notin> set a"
  shows "CHR '','' \<notin> set (fold_params (concat (map (repr_char q) a)))"
proof (rule fold_params_no_comma)
  have "CHR '','' \<notin> set (repr_char q c)" if "c \<in> set a" for c
  proof (rule repr_char_no_comma)
    from that assms show "c \<noteq> CHR '',''" by auto
  qed
  then show "CHR '','' \<notin> set (concat (map (repr_char q) a))" by auto
qed

lemma single_pieces:
  assumes "CHR '','' \<notin> set m" "CHR '','' \<notin> set c" "CHR '','' \<notin> set p"
  shows "\<exists>q. (q = CHR 0x27 \<or> q = CHR 0x22)
           \<and> param_pieces [m @ '','' @ c @ '','' @ p] =
               [q # fold_params (concat (map (repr_char q) m)),
                fold_params (concat (map (repr_char q) c)),
                fold_params (concat (map (repr_char q) p)) @ [q]]"
proof -
  define s where "s = m @ '','' @ c @ '','' @ p"
  define q where "q = (if CHR 0x27 \<in> set s \<and> CHR 0x22 \<notin> set s then CHR 0x22 else CHR 0x27)"
  define fm where "fm = q # fold_params (concat (map (repr_char q) m))"
  define fc where "fc = fold_params (concat (map (repr_char q) c))"
  define fp where "fp = fold_params (concat (map (repr_char q) p)) @ [q]"
  have q: "q = CHR 0x27 \<or> q = CHR 0x22"
    by (simp add: q_def)
  have "str_list [s] = ''['' @ [q] @ concat (map (repr_char q) s) @ [q] @ '']''"
    by (simp add: str_list_def repr_str_def q_def Let_def)
  then have "fold_params (str_list [s]) =
      fold_params ''['' @ fold_params [q] @ fold_params (concat (map (repr_char q) s))
      @ fold_params [q] @ fold_params '']''"
    by (simp only: fold_params_append)
  moreover have "fold_params ''['' = []" "fold_params '']'' = []"
    by (simp_all add: fold_params_def casefold_def remove_char_def)
  moreover have "concat (map (repr_char q) s) =
      concat (map (repr_char q) m) @ '','' @ concat (map (repr_char q) c) @ '',''
      @ concat (map (repr_char q) p)"
    unfolding s_def by (simp add: repr_char_comma [OF q])
  ultimately have whole: "fold_params (str_list [s]) = fm @ CHR '','' # fc @ CHR '','' # fp"
    by (simp add: fold_params_append fold_params_comma fold_params_quote(1) [OF q] fm_def
        fc_def fp_def)
  have free: "CHR '','' \<notin> set fm" "CHR '','' \<notin> set fc" "CHR '','' \<notin> set fp"
    using assms fold_params_quote(2) [OF q]
    by (auto simp: repr_chars_no_comma fm_def fc_def fp_def)
  have "split_on CHR '','' (fm @ CHR '','' # fc @ CHR '','' # fp) = [fm, fc, fp]"
    using free by (simp add: split_on_first split_on_absent del: split_on.simps)
  with whole have "param_pieces [s] = [fm, fc, fp]"
    by (simp add: param_pieces_def)
  with q show ?thesis unfolding s_def fm_def fc_def fp_def by blast
qed

text \<open>
  Claim C10, as amended. The cloud flag is the truth value of the second of the three
  pieces that remain of the text of the argument list once the brackets are taken out
  and the case is folded: true when that piece is not empty, false when it is empty, and
  \<^verbatim>\<open>run\<close> goes on with that value. With three arguments on the command line (ASCII, none
  holding a comma) the piece carries the quotes of the list's text, so the flag is true
  for every second argument, the documented "false" included. With the one argument
  \<^verbatim>\<open>mode,flag,path\<close> the flag is true exactly when the flag token has a character other
  than the two brackets: true for "false", false for the empty token and for a token
  made of brackets, which is how the local branches are reached.
\<close>

theorem cloud_mode_is_truthiness:
  "(param_pieces argv = [mode, flag, output_path] \<longrightarrow>
      parse_params argv = Inr (mode, flag \<noteq> [], output_path)
      \<and> (run env argv :: ('dp, unit) io) = run_mode env mode (flag \<noteq> []) output_path)
   \<and> ((\<forall>a \<in> set [a1, a2, a3]. is_ascii a \<and> CHR '','' \<notin> set a) \<longrightarrow>
        (\<exists>mode' output_path'.
           parse_params [a1, a2, a3] = Inr (mode', True, output_path')
           \<and> (run env [a1, a2, a3] :: ('dp, unit) io) = run_mode env mode' True output_path'))
   \<and> ((\<forall>a \<in> set [m, c, p]. is_ascii a \<and> CHR '','' \<notin> set a) \<longrightarrow>
        (\<exists>mode' output_path'.
           parse_params [m @ '','' @ c @ '','' @ p] =
             Inr (mode', (\<exists>x \<in> set c. x \<noteq> CHR ''['' \<and> x \<noteq> CHR '']''), output_path')
           \<and> (run env [m @ '','' @ c @ '','' @ p] :: ('dp, unit) io) =
               run_mode env mode' (\<exists>x \<in> set c. x \<noteq> CHR ''['' \<and> x \<noteq> CHR '']'')
                 output_path'))"
proof -
  have general: "parse_params argv = Inr (mode, flag \<noteq> [], output_path)
      \<and> (run env argv :: ('dp, unit) io) = run_mode env mode (flag \<noteq> []) output_path"
    if "param_pieces argv = [mode, flag, output_path]"
    using that by (simp add: parse_params_def run_def and_then_def pure_def)
  have three: "\<exists>mode' output_path'.
           parse_params [a1, a2, a3] = Inr (mode', True, output_path')
           \<and> (run env [a1, a2, a3] :: ('dp, unit) io) = run_mode env mode' True output_path'"
    if "\<forall>a \<in> set [a1, a2, a3]. is_ascii a \<and> CHR '','' \<notin> set a"
  proof -
    from that have "param_pieces [a1, a2, a3] =
        [fold_params (repr_str a1), CHR '' '' # fold_params (repr_str a2),
         CHR '' '' # fold_params (repr_str a3)]"
      by (simp add: three_pieces)
    then show ?thesis
      by (simp add: parse_params_def run_def and_then_def pure_def)
  qed
  have single: "\<exists>mode' output_path'.
           parse_params [m @ '','' @ c @ '','' @ p] =
             Inr (mode', (\<exists>x \<in> set c. x \<noteq> CHR ''['' \<and> x \<noteq> CHR '']''), output_path')
           \<and> (run env [m @ '','' @ c @ '','' @ p] :: ('dp, unit) io) =
               run_mode env mode' (\<exists>x \<in> set c. x \<noteq> CHR ''['' \<and> x \<noteq> CHR '']'')
                 output_path'"
    if "\<forall>a \<in> set [m, c, p]. is_ascii a \<and> CHR '','' \<notin> set a"
  proof -
    from that have "CHR '','' \<notin> set m" "CHR '','' \<notin> set c" "CHR '','' \<notin> set p"
      by simp_all
    from single_pieces [OF this]
    obtain q where q: "q = CHR 0x27 \<or> q = CHR 0x22"
      and pieces: "param_pieces [m @ '','' @ c @ '','' @ p] =
               [q # fold_params (concat (map (repr_char q) m)),
                fold_params (concat (map (repr_char q) c)),
                fold_params (concat (map (repr_char q) p)) @ [q]]"
      by blast
    have flag: "(fold_params (concat (map (repr_char q) c)) \<noteq> []) =
        (\<exists>x \<in> set c. x \<noteq> CHR ''['' \<and> x \<noteq> CHR '']'')"
      using fold_repr_empty [OF q, of c] by simp
    from pieces have "parse_params [m @ '','' @ c @ '','' @ p] =
        Inr (q # fold_params (concat (map (repr_char q) m)),
             (\<exists>x \<in> set c. x \<noteq> CHR ''['' \<and> x \<noteq> CHR '']''),
             fold_params (concat (map (repr_char q) p)) @ [q])"
      by (simp add: parse_params_def flag)
    moreover from this have "(run env [m @ '','' @ c @ '','' @ p] :: ('dp, unit) io) =
        run_mode env (q # fold_params (concat (map (repr_char q) m)))
          (\<exists>x \<in> set c. x \<noteq> CHR ''['' \<and> x \<noteq> CHR '']'')
          (fold_params (concat (map (repr_char q) p)) @ [q])"
      by (simp add: run_def and_then_def pure_def)
    ultimately show ?thesis by blast
  qed
  from general three single show ?thesis by blast
qed

theorem cloud_mode_is_truthiness_witness:
  "parse_params [''clean,false,aind-open-data''] =
     Inr ([CHR 0x27] @ ''clean'', True, ''aind-open-data'' @ [CHR 0x27])
   \<and> parse_params [''clean,,aind-open-data''] =
       Inr ([CHR 0x27] @ ''clean'', False, ''aind-open-data'' @ [CHR 0x27])
   \<and> (\<exists>mode' output_path'.
        parse_params [''dispatch'', ''false'', ''aind-open-data''] =
          Inr (mode', True, output_path')
        \<and> run example_clean_env [''dispatch'', ''false'', ''aind-open-data''] =
            run_mode example_clean_env mode' True output_path')
   \<and> (\<exists>mode' output_path'.
        parse_params [''dispatch,false,aind-open-data''] = Inr (mode', True, output_path')
        \<and> run example_clean_env [''dispatch,false,aind-open-data''] =
            run_mode example_clean_env mode' True output_path')
   \<and> (\<exists>mode' output_path'.
        parse_params [''clean,[[],aind-open-data''] = Inr (mode', False, output_path')
        \<and> run example_clean_env [''clean,[[],aind-open-data''] =
            run_mode example_clean_env mode' False output_path')"
proof -
  note general = cloud_mode_is_truthiness [where env = example_clean_env, THEN conjunct1, THEN mp]
  note three = cloud_mode_is_truthiness
    [where env = example_clean_env, THEN conjunct2, THEN conjunct1, THEN mp]
  note single = cloud_mode_is_truthiness
    [where env = example_clean_env, THEN conjunct2, THEN conjunct2, THEN mp]
  have "param_pieces [''clean,false,aind-open-data''] =
      [[CHR 0x27] @ ''clean'', ''false'', ''aind-open-data'' @ [CHR 0x27]]"
    by code_simp
  from general [OF this]
  have one: "parse_params [''clean,false,aind-open-data''] =
     Inr ([CHR 0x27] @ ''clean'', True, ''aind-open-data'' @ [CHR 0x27])"
    by simp
  have "param_pieces [''clean,,aind-open-data''] =
      [[CHR 0x27] @ ''clean'', [], ''aind-open-data'' @ [CHR 0x27]]"
    by code_simp
  from general [OF this]
  have two: "parse_params [''clean,,aind-open-data''] =
     Inr ([CHR 0x27] @ ''clean'', False, ''aind-open-data'' @ [CHR 0x27])"
    by simp
  have "\<forall>a \<in> set [''dispatch'', ''false'', ''aind-open-data''].
      is_ascii a \<and> CHR '','' \<notin> set a"
    by (simp add: is_ascii_def)
  from three [OF this]
  have three': "\<exists>mode' output_path'.
        parse_params [''dispatch'', ''false'', ''aind-open-data''] =
          Inr (mode', True, output_path')
        \<and> run example_clean_env [''dispatch'', ''false'', ''aind-open-data''] =
            run_mode example_clean_env mode' True output_path'" .
  have "\<forall>a \<in> set [''dispatch'', ''false'', ''aind-open-data''].
      is_ascii a \<and> CHR '','' \<notin> set a"
    by (simp add: is_ascii_def)
  from single [OF this]
  have four: "\<exists>mode' output_path'.
        parse_params [''dispatch,false,aind-open-data''] = Inr (mode', True, output_path')
        \<and> run example_clean_env [''dispatch,false,aind-open-data''] =
            run_mode example_clean_env mode' True output_path'"
    by simp
  have "\<forall>a \<in> set [''clean'', ''[[]'', ''aind-open-data''].
      is_ascii a \<and> CHR '','' \<notin> set a"
    by (simp add: is_ascii_def)
  from single [OF this]
  have five: "\<exists>mode' output_path'.
        parse_params [''clean,[[],aind-open-data''] = Inr (mode', False, output_path')
        \<and> run example_clean_env [''clean,[[],aind-open-data''] =
            run_mode example_clean_env mode' False output_path'"
    by simp
  from one two three' four five show ?thesis
    by (intro conjI)
qed

theorem cloud_mode_brackets_counterexample:
  "parse_params [''clean,[],aind-open-data''] =
     Inr ([CHR 0x27] @ ''clean'', False, ''aind-open-data'' @ [CHR 0x27])
   \<and> run example_clean_env [''clean,[],aind-open-data''] =
       (Inl (NameError ''cell_s3_output''),
        [WriteProcessing ''/results''
           (example_document [''import'', ''stitch'', ''segmentation'', ''quantification''])])
   \<and> run example_clean_env [''clean,false,aind-open-data''] =
       (Inr (),
        [WriteProcessing ''/results''
           (example_document [''import'', ''stitch'', ''segmentation'', ''quantification'']),
         Exec ''aws s3 mv /results/processing.json s3://aind-open-data/SmartSPIM_1_stitched/processing.json'',
         Exec ''aws s3 mv --recursive /done/cell_Ex_488_Em_525 s3://aind-open-data/SmartSPIM_1_stitched/image_cell_segmentation/Ex_488_Em_525'',
         Exec ''aws s3 mv --recursive /done/quant_Ex_488_Em_525 s3://aind-open-data/SmartSPIM_1_stitched/image_cell_quantification/Ex_488_Em_525'',
         WriteText ''/results/output_cell.txt''
           (''Results of cell segmentation saved in: s3://aind-open-data/SmartSPIM_1_stitched/image_cell_segmentation'' @ [CHR 0x0A]),
         WriteText ''/results/output_quantification.txt''
           (''Results of quantification saved in: s3://aind-open-data/SmartSPIM_1_stitched/image_cell_quantification'' @ [CHR 0x0A])])"
  by code_simp

section \<open>Properties of the input check\<close>





section \<open>Properties of the two call sites of the compiler\<close>

lemma try_compile_swallows:
  assumes "\<exists>p \<in> set paths. \<exists>e. load_fragment env p = Inl e"
  shows "try_compile env paths dest = (Inr None, [])"
proof -
  from compile_fails [OF assms, of dest "''Camilo Laiton''" PIPELINE_VERSION]
  obtain e where "is_Exception e"
    "compile_processing_jsons env paths dest ''Camilo Laiton'' PIPELINE_VERSION = (Inl e, [])"
    by blast
  then show ?thesis by (simp add: try_compile_def)
qed

text \<open>
  Claim C3. When a fragment on the dispatch-mode list fails, \<^verbatim>\<open>copy_intermediate_data\<close>
  does not raise that failure: the result of the compile is replaced by \<^verbatim>\<open>None\<close> and the
  function goes on with the relocation, whose outcome is its own. When a fragment on the
  clean-mode list fails, \<^verbatim>\<open>clean_up\<close> raises that failure and has had no effect: nothing
  is moved and no summary file is written.
\<close>

theorem provenance_failure_asymmetry:
  "((\<exists>p \<in> set (copy_processing_paths env destripe_files stitch_folders fuse_folders
                    ccf_folders). \<exists>e. load_fragment env p = Inl e) \<longrightarrow>
      try_compile env
        (copy_processing_paths env destripe_files stitch_folders fuse_folders ccf_folders)
        output_dispatch_metadata = (Inr None, [])
      \<and> copy_intermediate_data env output_dispatch_metadata destripe_files flatfield_channels
          stitch_folders fuse_folders ccf_folders new_dataset_name output_path results_folder
          cloud_mode =
        relocate env output_dispatch_metadata flatfield_channels stitch_folders fuse_folders
          ccf_folders new_dataset_name output_path results_folder cloud_mode)
   \<and> (is_dir env data_folder
        \<and> (\<exists>p \<in> set (clean_processing_paths env data_folder
                          (glob env (data_folder @ ''/cell_*''))
                          (glob env (data_folder @ ''/quant_*''))).
              \<exists>e. load_fragment env p = Inl e) \<longrightarrow>
        (\<exists>p e. p \<in> set (clean_processing_paths env data_folder
                            (glob env (data_folder @ ''/cell_*''))
                            (glob env (data_folder @ ''/quant_*'')))
               \<and> load_fragment env p = Inl e
               \<and> clean_up env processing_manifest data_folder results_folder cloud_mode =
                   (Inl e, [])))"
proof (intro conjI impI)
  assume "\<exists>p \<in> set (copy_processing_paths env destripe_files stitch_folders fuse_folders
                    ccf_folders). \<exists>e. load_fragment env p = Inl e"
  from try_compile_swallows [OF this, of output_dispatch_metadata]
  show "try_compile env
        (copy_processing_paths env destripe_files stitch_folders fuse_folders ccf_folders)
        output_dispatch_metadata = (Inr None, [])" .
next
  assume "\<exists>p \<in> set (copy_processing_paths env destripe_files stitch_folders fuse_folders
                    ccf_folders). \<exists>e. load_fragment env p = Inl e"
  from try_compile_swallows [OF this, of output_dispatch_metadata]
  have "copy_intermediate_data env output_dispatch_metadata destripe_files flatfield_channels
        stitch_folders fuse_folders ccf_folders new_dataset_name output_path results_folder
        cloud_mode =
      and_then (Inr (None :: string option), []) (\<lambda>output_filename.
        relocate env output_dispatch_metadata flatfield_channels stitch_folders fuse_folders
          ccf_folders new_dataset_name output_path results_folder cloud_mode)"
    by (simp add: copy_intermediate_data_def Let_def)
  then show "copy_intermediate_data env output_dispatch_metadata destripe_files flatfield_channels
        stitch_folders fuse_folders ccf_folders new_dataset_name output_path results_folder
        cloud_mode =
      relocate env output_dispatch_metadata flatfield_channels stitch_folders fuse_folders
        ccf_folders new_dataset_name output_path results_folder cloud_mode"
    by (simp add: and_then_def split: prod.splits)
next
  assume a: "is_dir env data_folder
        \<and> (\<exists>p \<in> set (clean_processing_paths env data_folder
                          (glob env (data_folder @ ''/cell_*''))
                          (glob env (data_folder @ ''/quant_*''))).
              \<exists>e. load_fragment env p = Inl e)"
  then have "\<exists>p \<in> set (clean_processing_paths env data_folder
                          (glob env (data_folder @ ''/cell_*''))
                          (glob env (data_folder @ ''/quant_*''))).
              \<exists>e. load_fragment env p = Inl e"
    by simp
  from compile_fails [OF this, of results_folder "''Camilo Laiton''" PIPELINE_VERSION]
  obtain p e where pe: "p \<in> set (clean_processing_paths env data_folder
                          (glob env (data_folder @ ''/cell_*''))
                          (glob env (data_folder @ ''/quant_*'')))"
    "load_fragment env p = Inl e"
    "compile_processing_jsons env
       (clean_processing_paths env data_folder (glob env (data_folder @ ''/cell_*''))
          (glob env (data_folder @ ''/quant_*'')))
       results_folder ''Camilo Laiton'' PIPELINE_VERSION = (Inl e, [])"
    by blast
  from a pe(3) have "clean_up env processing_manifest data_folder results_folder cloud_mode =
      (Inl e, [])"
    by (simp add: clean_up_def Let_def and_then_def)
  with pe(1,2) show "\<exists>p e. p \<in> set (clean_processing_paths env data_folder
                            (glob env (data_folder @ ''/cell_*''))
                            (glob env (data_folder @ ''/quant_*'')))
               \<and> load_fragment env p = Inl e
               \<and> clean_up env processing_manifest data_folder results_folder cloud_mode =
                   (Inl e, [])"
    by blast
qed

theorem provenance_failure_asymmetry_witness:
  "(copy_intermediate_data example_env ''/results/output_aind_metadata'' [''/data/A.json'']
      [''/data/flatfield_correction_Ex_488_Em_525''] [''/data/stitched/stitch_Ex_488_Em_525'']
      [''/data/fused/fusion_Ex_488_Em_525''] [] ''SmartSPIM_1_stitched'' ''aind-open-data''
      ''/results'' True) =
     (Inr (''s3://aind-open-data/SmartSPIM_1_stitched'',
           ''s3://aind-open-data/SmartSPIM_1_stitched/image_tile_fusing/OMEZarr''),
      [Exec ''aws s3 cp --recursive /results/output_aind_metadata s3://aind-open-data/SmartSPIM_1_stitched'',
       Exec ''aws s3 cp --recursive /data/flatfield_correction_Ex_488_Em_525 s3://aind-open-data/SmartSPIM_1_stitched/image_tile_fusing/metadata/flatfield_correction/flatfield_correction_Ex_488_Em_525'',
       Exec ''aws s3 cp --recursive /data/fused/fusion_Ex_488_Em_525/OMEZarr s3://aind-open-data/SmartSPIM_1_stitched/image_tile_fusing/OMEZarr'',
       Exec ''aws s3 cp --recursive /data/fused/fusion_Ex_488_Em_525/metadata s3://aind-open-data/SmartSPIM_1_stitched/image_tile_fusing/metadata/fusion_Ex_488_Em_525'',
       Exec ''aws s3 cp --recursive /data/stitched/stitch_Ex_488_Em_525/metadata s3://aind-open-data/SmartSPIM_1_stitched/image_tile_fusing/metadata/stitch_Ex_488_Em_525'',
       WriteText ''/results/output_stitching.txt''
         (''Stitched dataset saved in: s3://aind-open-data/SmartSPIM_1_stitched'' @ [CHR 0x0A])])
   \<and> (\<exists>e. clean_up example_env (example_manifest [JInt 1]) ''/data'' ''/results'' True =
              (Inl e, []))"
proof -
  have broken: "load_fragment example_env
      ''/data/fused/fusion_Ex_488_Em_525/metadata/processing.json'' = Inl JSONDecodeError"
    by code_simp
  have listed: "''/data/fused/fusion_Ex_488_Em_525/metadata/processing.json''
      \<in> set (copy_processing_paths example_env [''/data/A.json'']
               [''/data/stitched/stitch_Ex_488_Em_525''] [''/data/fused/fusion_Ex_488_Em_525'']
               [])"
    by code_simp
  from broken listed
  have copy_fails: "\<exists>p \<in> set (copy_processing_paths example_env [''/data/A.json'']
               [''/data/stitched/stitch_Ex_488_Em_525''] [''/data/fused/fusion_Ex_488_Em_525'']
               []). \<exists>e. load_fragment example_env p = Inl e"
    by blast
  have absent: "load_fragment example_env ''/data/output_aind_metadata/processing.json'' =
      Inl (ValidationError ''processing_pipeline: field required'')"
    by code_simp
  have first: "''/data/output_aind_metadata/processing.json''
      \<in> set (clean_processing_paths example_env ''/data''
               (glob example_env (''/data'' @ ''/cell_*''))
               (glob example_env (''/data'' @ ''/quant_*'')))"
    by code_simp
  have dir: "is_dir example_env ''/data''"
    by code_simp
  from absent first
  have clean_fails: "\<exists>p \<in> set (clean_processing_paths example_env ''/data''
               (glob example_env (''/data'' @ ''/cell_*''))
               (glob example_env (''/data'' @ ''/quant_*''))).
        \<exists>e. load_fragment example_env p = Inl e"
    by blast
  have relocated: "relocate example_env ''/results/output_aind_metadata''
      [''/data/flatfield_correction_Ex_488_Em_525''] [''/data/stitched/stitch_Ex_488_Em_525'']
      [''/data/fused/fusion_Ex_488_Em_525''] [] ''SmartSPIM_1_stitched'' ''aind-open-data''
      ''/results'' True =
     (Inr (''s3://aind-open-data/SmartSPIM_1_stitched'',
           ''s3://aind-open-data/SmartSPIM_1_stitched/image_tile_fusing/OMEZarr''),
      [Exec ''aws s3 cp --recursive /results/output_aind_metadata s3://aind-open-data/SmartSPIM_1_stitched'',
       Exec ''aws s3 cp --recursive /data/flatfield_correction_Ex_488_Em_525 s3://aind-open-data/SmartSPIM_1_stitched/image_tile_fusing/metadata/flatfield_correction/flatfield_correction_Ex_488_Em_525'',
       Exec ''aws s3 cp --recursive /data/fused/fusion_Ex_488_Em_525/OMEZarr s3://aind-open-data/SmartSPIM_1_stitched/image_tile_fusing/OMEZarr'',
       Exec ''aws s3 cp --recursive /data/fused/fusion_Ex_488_Em_525/metadata s3://aind-open-data/SmartSPIM_1_stitched/image_tile_fusing/metadata/fusion_Ex_488_Em_525'',
       Exec ''aws s3 cp --recursive /data/stitched/stitch_Ex_488_Em_525/metadata s3://aind-open-data/SmartSPIM_1_stitched/image_tile_fusing/metadata/stitch_Ex_488_Em_525'',
       WriteText ''/results/output_stitching.txt''
         (''Stitched dataset saved in: s3://aind-open-data/SmartSPIM_1_stitched'' @ [CHR 0x0A])])"
    by code_simp
  note asymmetry = provenance_failure_asymmetry
    [where env = example_env and destripe_files = "[''/data/A.json'']"
       and stitch_folders = "[''/data/stitched/stitch_Ex_488_Em_525'']"
       and fuse_folders = "[''/data/fused/fusion_Ex_488_Em_525'']" and ccf_folders = "[]"
       and output_dispatch_metadata = "''/results/output_aind_metadata''"
       and flatfield_channels = "[''/data/flatfield_correction_Ex_488_Em_525'']"
       and new_dataset_name = "''SmartSPIM_1_stitched''" and output_path = "''aind-open-data''"
       and results_folder = "''/results''" and cloud_mode = True and data_folder = "''/data''"
       and processing_manifest = "example_manifest [JInt 1]"]
  from asymmetry copy_fails
  have "copy_intermediate_data example_env ''/results/output_aind_metadata'' [''/data/A.json'']
      [''/data/flatfield_correction_Ex_488_Em_525''] [''/data/stitched/stitch_Ex_488_Em_525'']
      [''/data/fused/fusion_Ex_488_Em_525''] [] ''SmartSPIM_1_stitched'' ''aind-open-data''
      ''/results'' True =
      relocate example_env ''/results/output_aind_metadata''
      [''/data/flatfield_correction_Ex_488_Em_525''] [''/data/stitched/stitch_Ex_488_Em_525'']
      [''/data/fused/fusion_Ex_488_Em_525''] [] ''SmartSPIM_1_stitched'' ''aind-open-data''
      ''/results'' True"
    by blast
  then have one: "copy_intermediate_data example_env ''/results/output_aind_metadata''
      [''/data/A.json'']
      [''/data/flatfield_correction_Ex_488_Em_525''] [''/data/stitched/stitch_Ex_488_Em_525'']
      [''/data/fused/fusion_Ex_488_Em_525''] [] ''SmartSPIM_1_stitched'' ''aind-open-data''
      ''/results'' True =
     (Inr (''s3://aind-open-data/SmartSPIM_1_stitched'',
           ''s3://aind-open-data/SmartSPIM_1_stitched/image_tile_fusing/OMEZarr''),
      [Exec ''aws s3 cp --recursive /results/output_aind_metadata s3://aind-open-data/SmartSPIM_1_stitched'',
       Exec ''aws s3 cp --recursive /data/flatfield_correction_Ex_488_Em_525 s3://aind-open-data/SmartSPIM_1_stitched/image_tile_fusing/metadata/flatfield_correction/flatfield_correction_Ex_488_Em_525'',
       Exec ''aws s3 cp --recursive /data/fused/fusion_Ex_488_Em_525/OMEZarr s3://aind-open-data/SmartSPIM_1_stitched/image_tile_fusing/OMEZarr'',
       Exec ''aws s3 cp --recursive /data/fused/fusion_Ex_488_Em_525/metadata s3://aind-open-data/SmartSPIM_1_stitched/image_tile_fusing/metadata/fusion_Ex_488_Em_525'',
       Exec ''aws s3 cp --recursive /data/stitched/stitch_Ex_488_Em_525/metadata s3://aind-open-data/SmartSPIM_1_stitched/image_tile_fusing/metadata/stitch_Ex_488_Em_525'',
       WriteText ''/results/output_stitching.txt''
         (''Stitched dataset saved in: s3://aind-open-data/SmartSPIM_1_stitched'' @ [CHR 0x0A])])"
    unfolding relocated .
  from asymmetry dir clean_fails
  have two: "\<exists>e. clean_up example_env (example_manifest [JInt 1]) ''/data'' ''/results'' True =
      (Inl e, [])"
    by blast
  from one two show ?thesis by (rule conjI)
qed

section \<open>Properties of the viewer link\<close>

lemma colors_loop_all:
  "colors_loop acc paths = Inr colors \<Longrightarrow>
   \<exists>new. colors = acc @ new
      \<and> list_all2 (\<lambda>p c. or_raise (channel_of p) channel_color = Inr c) paths new"
proof (induction paths arbitrary: acc)
  case Nil
  then show ?case by simp
next
  case (Cons p ps)
  from Cons.prems obtain c where c: "or_raise (channel_of p) channel_color = Inr c"
    "colors_loop (acc @ [c]) ps = Inr colors"
    by (auto simp: or_raise_def split: sum.splits)
  from Cons.IH [OF c(2)] obtain new where
    "colors = (acc @ [c]) @ new"
    "list_all2 (\<lambda>p c. or_raise (channel_of p) channel_color = Inr c) ps new"
    by blast
  with c(1) have "colors = acc @ (c # new)
      \<and> list_all2 (\<lambda>p c. or_raise (channel_of p) channel_color = Inr c) (p # ps) (c # new)"
    by simp
  then show ?case by blast
qed

lemma layers_loop_map2:
  "length colors = length paths \<Longrightarrow> layers_loop paths colors = map2 make_layer paths colors"
  by (rule nth_equalityI) (simp_all add: layers_loop_def)

lemma sort_permutation:
  fixes xs ys :: "string list"
  assumes "mset xs = mset ys"
  shows "sort xs = sort ys"
proof (rule properties_for_sort)
  show "mset (sort ys) = mset xs" using assms by simp
  show "sorted (sort ys)" by simp
qed

lemma layers_of_sorted:
  assumes "list_all2 (\<lambda>p c. or_raise (channel_of p) channel_color = Inr c) paths colors"
  shows "map source (layers_loop paths colors) = paths
       \<and> (\<forall>l \<in> set (layers_loop paths colors).
            or_raise (channel_of (source l)) channel_color = Inr (shader_color l))"
proof -
  from assms have len: "length colors = length paths"
    by (simp add: list_all2_lengthD)
  from assms have "\<forall>(p, c) \<in> set (zip paths colors).
      or_raise (channel_of p) channel_color = Inr c"
    by (simp add: list_all2_iff)
  then have "\<forall>l \<in> set (map2 make_layer paths colors).
      or_raise (channel_of (source l)) channel_color = Inr (shader_color l)"
    by (auto simp: make_layer_def)
  moreover have "map source (map2 make_layer paths colors) = paths"
    using len by (induction paths colors rule: list_induct2') (simp_all add: make_layer_def)
  ultimately show ?thesis
    by (simp add: layers_loop_map2 [OF len])
qed

text \<open>
  Claim C7. For two lists of channel paths that are permutations of each other,
  \<^verbatim>\<open>create_ng_link\<close> does the same: the same result or exception and the same descriptor.
  When it returns, the layers of the descriptor are the paths in the lexicographic order
  of their text, and the colour of each layer is the colour of the channel number that
  ends the stem of its own path, whatever the other paths are.
\<close>

theorem layer_order_independent:
  fixes xs ys :: "string list"
  assumes "mset xs = mset ys"
  shows "(create_ng_link config xs dataset :: ('dp, path \<times> string) io) =
           create_ng_link config ys dataset
       \<and> (\<forall>result effects.
            (create_ng_link config xs dataset :: ('dp, path \<times> string) io) = (Inr result, effects)
            \<longrightarrow> (\<exists>fname st. effects = [WriteNeuroglancer fname st]
                   \<and> map source (layers (input_config st)) = sort xs
                   \<and> sorted (map source (layers (input_config st)))
                   \<and> (\<forall>l \<in> set (layers (input_config st)).
                        or_raise (channel_of (source l)) channel_color
                          = Inr (shader_color l))))"
proof (intro conjI allI impI)
  show "(create_ng_link config xs dataset :: ('dp, path \<times> string) io) =
           create_ng_link config ys dataset"
    by (simp add: create_ng_link_def sort_permutation [OF assms])
next
  fix result and effects :: "'dp effect list"
  assume r: "create_ng_link config xs dataset = (Inr result, effects)"
  then obtain colors where colors: "colors_loop [] (sort xs) = Inr colors"
    by (cases "colors_loop [] (sort xs)")
      (auto simp: create_ng_link_def Let_def and_then_def pure_def)
  from r colors obtain subject_id where sid: "subject_id_of dataset = Inr subject_id"
    by (cases "subject_id_of dataset")
      (auto simp: create_ng_link_def Let_def and_then_def pure_def)
  from colors_loop_all [OF colors]
  have all: "list_all2 (\<lambda>p c. or_raise (channel_of p) channel_color = Inr c) (sort xs) colors"
    by simp
  from r colors sid obtain fname st where st: "effects = [WriteNeuroglancer fname st]"
    "layers (input_config st) = layers_loop (sort xs) colors"
    by (auto simp: create_ng_link_def Let_def and_then_def pure_def)
  from layers_of_sorted [OF all] st
  show "\<exists>fname st. effects = [WriteNeuroglancer fname st]
                   \<and> map source (layers (input_config st)) = sort xs
                   \<and> sorted (map source (layers (input_config st)))
                   \<and> (\<forall>l \<in> set (layers (input_config st)).
                        or_raise (channel_of (source l)) channel_color
                          = Inr (shader_color l))"
    by auto
qed


theorem layer_order_independent_witness:
  "(create_ng_link example_config
      [''s3://aind-open-data/SmartSPIM_1_stitched/image_tile_fusing/OMEZarr/Ex_600_Em_620.zarr'',
       ''s3://aind-open-data/SmartSPIM_1_stitched/image_tile_fusing/OMEZarr/Ex_488_Em_525.zarr'']
      ''s3://aind-open-data/SmartSPIM_1_stitched'' :: (string, path \<times> string) io) =
    create_ng_link example_config
      [''s3://aind-open-data/SmartSPIM_1_stitched/image_tile_fusing/OMEZarr/Ex_488_Em_525.zarr'',
       ''s3://aind-open-data/SmartSPIM_1_stitched/image_tile_fusing/OMEZarr/Ex_600_Em_620.zarr'']
      ''s3://aind-open-data/SmartSPIM_1_stitched''
   \<and> (\<exists>result fname st.
        (create_ng_link example_config
           [''s3://aind-open-data/SmartSPIM_1_stitched/image_tile_fusing/OMEZarr/Ex_600_Em_620.zarr'',
            ''s3://aind-open-data/SmartSPIM_1_stitched/image_tile_fusing/OMEZarr/Ex_488_Em_525.zarr'']
           ''s3://aind-open-data/SmartSPIM_1_stitched'' :: (string, path \<times> string) io) =
          (Inr result, [WriteNeuroglancer fname st])
        \<and> map source (layers (input_config st)) =
            [''s3://aind-open-data/SmartSPIM_1_stitched/image_tile_fusing/OMEZarr/Ex_488_Em_525.zarr'',
             ''s3://aind-open-data/SmartSPIM_1_stitched/image_tile_fusing/OMEZarr/Ex_600_Em_620.zarr'']
        \<and> map shader_color (layers (input_config st)) = [''#92ff42'', ''#ed1c24''])"
proof -
  have permuted: "mset
      [''s3://aind-open-data/SmartSPIM_1_stitched/image_tile_fusing/OMEZarr/Ex_600_Em_620.zarr'',
       ''s3://aind-open-data/SmartSPIM_1_stitched/image_tile_fusing/OMEZarr/Ex_488_Em_525.zarr''] =
    mset
      [''s3://aind-open-data/SmartSPIM_1_stitched/image_tile_fusing/OMEZarr/Ex_488_Em_525.zarr'',
       ''s3://aind-open-data/SmartSPIM_1_stitched/image_tile_fusing/OMEZarr/Ex_600_Em_620.zarr'']"
    by (simp add: add_mset_commute)
  have sorted_paths: "sort
      [''s3://aind-open-data/SmartSPIM_1_stitched/image_tile_fusing/OMEZarr/Ex_600_Em_620.zarr'',
       ''s3://aind-open-data/SmartSPIM_1_stitched/image_tile_fusing/OMEZarr/Ex_488_Em_525.zarr''] =
      [''s3://aind-open-data/SmartSPIM_1_stitched/image_tile_fusing/OMEZarr/Ex_488_Em_525.zarr'',
       ''s3://aind-open-data/SmartSPIM_1_stitched/image_tile_fusing/OMEZarr/Ex_600_Em_620.zarr'']"
    by code_simp
  have stem488: "last (split_on CHR ''_'' (path_stem (Path
      ''s3://aind-open-data/SmartSPIM_1_stitched/image_tile_fusing/OMEZarr/Ex_488_Em_525.zarr'')))
      = ''525''"
    by code_simp
  have stem600: "last (split_on CHR ''_'' (path_stem (Path
      ''s3://aind-open-data/SmartSPIM_1_stitched/image_tile_fusing/OMEZarr/Ex_600_Em_620.zarr'')))
      = ''620''"
    by code_simp
  have channel488: "channel_of
      ''s3://aind-open-data/SmartSPIM_1_stitched/image_tile_fusing/OMEZarr/Ex_488_Em_525.zarr''
      = Inr 525"
    unfolding channel_of_def Let_def stem488
    by (simp add: py_int_def strip_def is_space_def is_digit_def)
  have channel600: "channel_of
      ''s3://aind-open-data/SmartSPIM_1_stitched/image_tile_fusing/OMEZarr/Ex_600_Em_620.zarr''
      = Inr 620"
    unfolding channel_of_def Let_def stem600
    by (simp add: py_int_def strip_def is_space_def is_digit_def)
  have color525: "channel_color 525 = Inr ''#92ff42''"
    by (simp add: channel_color_def or_raise_def wavelength_to_hex_alternate_def
        color_map_alternate_def hex_def digits_of.simps digit_char_def)
  have color620: "channel_color 620 = Inr ''#ed1c24''"
    by (simp add: channel_color_def or_raise_def wavelength_to_hex_alternate_def
        color_map_alternate_def hex_def digits_of.simps digit_char_def)
  have colors: "colors_loop []
      [''s3://aind-open-data/SmartSPIM_1_stitched/image_tile_fusing/OMEZarr/Ex_488_Em_525.zarr'',
       ''s3://aind-open-data/SmartSPIM_1_stitched/image_tile_fusing/OMEZarr/Ex_600_Em_620.zarr''] =
      Inr [''#92ff42'', ''#ed1c24'']"
    by (simp add: channel488 channel600 color525 color620 or_raise_def)
  have subject: "subject_id_of ''s3://aind-open-data/SmartSPIM_1_stitched'' = Inr ''1''"
    by code_simp
  have returned: "\<exists>result fname st.
        (create_ng_link example_config
           [''s3://aind-open-data/SmartSPIM_1_stitched/image_tile_fusing/OMEZarr/Ex_600_Em_620.zarr'',
            ''s3://aind-open-data/SmartSPIM_1_stitched/image_tile_fusing/OMEZarr/Ex_488_Em_525.zarr'']
           ''s3://aind-open-data/SmartSPIM_1_stitched'' :: (string, path \<times> string) io) =
          (Inr result, [WriteNeuroglancer fname st])
        \<and> map shader_color (layers (input_config st)) = [''#92ff42'', ''#ed1c24'']"
    unfolding create_ng_link_def Let_def sorted_paths colors subject
    by (simp add: and_then_def pure_def layers_loop_def make_layer_def upt_rec)
  then obtain result fname st where st:
    "(create_ng_link example_config
        [''s3://aind-open-data/SmartSPIM_1_stitched/image_tile_fusing/OMEZarr/Ex_600_Em_620.zarr'',
         ''s3://aind-open-data/SmartSPIM_1_stitched/image_tile_fusing/OMEZarr/Ex_488_Em_525.zarr'']
        ''s3://aind-open-data/SmartSPIM_1_stitched'' :: (string, path \<times> string) io) =
       (Inr result, [WriteNeuroglancer fname st])"
    "map shader_color (layers (input_config st)) = [''#92ff42'', ''#ed1c24'']"
    by (elim exE conjE) (rule that)
  note independent = layer_order_independent [OF permuted, of example_config
      "''s3://aind-open-data/SmartSPIM_1_stitched''"]
  from independent
  have "\<forall>result effects.
      (create_ng_link example_config
         [''s3://aind-open-data/SmartSPIM_1_stitched/image_tile_fusing/OMEZarr/Ex_600_Em_620.zarr'',
          ''s3://aind-open-data/SmartSPIM_1_stitched/image_tile_fusing/OMEZarr/Ex_488_Em_525.zarr'']
         ''s3://aind-open-data/SmartSPIM_1_stitched'' :: (string, path \<times> string) io) =
        (Inr result, effects)
      \<longrightarrow> (\<exists>fname st. effects = [WriteNeuroglancer fname st]
             \<and> map source (layers (input_config st)) = sort
      [''s3://aind-open-data/SmartSPIM_1_stitched/image_tile_fusing/OMEZarr/Ex_600_Em_620.zarr'',
       ''s3://aind-open-data/SmartSPIM_1_stitched/image_tile_fusing/OMEZarr/Ex_488_Em_525.zarr'']
             \<and> sorted (map source (layers (input_config st)))
             \<and> (\<forall>l \<in> set (layers (input_config st)).
                  or_raise (channel_of (source l)) channel_color = Inr (shader_color l)))"
    by (rule conjunct2)
  from this [rule_format, OF st(1)]
  have "map source (layers (input_config st)) = sort
      [''s3://aind-open-data/SmartSPIM_1_stitched/image_tile_fusing/OMEZarr/Ex_600_Em_620.zarr'',
       ''s3://aind-open-data/SmartSPIM_1_stitched/image_tile_fusing/OMEZarr/Ex_488_Em_525.zarr'']"
    by (elim exE conjE) simp
  then have sources: "map source (layers (input_config st)) =
      [''s3://aind-open-data/SmartSPIM_1_stitched/image_tile_fusing/OMEZarr/Ex_488_Em_525.zarr'',
       ''s3://aind-open-data/SmartSPIM_1_stitched/image_tile_fusing/OMEZarr/Ex_600_Em_620.zarr'']"
    unfolding sorted_paths .
  from independent have same: "(create_ng_link example_config
      [''s3://aind-open-data/SmartSPIM_1_stitched/image_tile_fusing/OMEZarr/Ex_600_Em_620.zarr'',
       ''s3://aind-open-data/SmartSPIM_1_stitched/image_tile_fusing/OMEZarr/Ex_488_Em_525.zarr'']
      ''s3://aind-open-data/SmartSPIM_1_stitched'' :: (string, path \<times> string) io) =
    create_ng_link example_config
      [''s3://aind-open-data/SmartSPIM_1_stitched/image_tile_fusing/OMEZarr/Ex_488_Em_525.zarr'',
       ''s3://aind-open-data/SmartSPIM_1_stitched/image_tile_fusing/OMEZarr/Ex_600_Em_620.zarr'']
      ''s3://aind-open-data/SmartSPIM_1_stitched''"
    by (rule conjunct1)
  from st(1) sources st(2) have "\<exists>result fname st.
        (create_ng_link example_config
           [''s3://aind-open-data/SmartSPIM_1_stitched/image_tile_fusing/OMEZarr/Ex_600_Em_620.zarr'',
            ''s3://aind-open-data/SmartSPIM_1_stitched/image_tile_fusing/OMEZarr/Ex_488_Em_525.zarr'']
           ''s3://aind-open-data/SmartSPIM_1_stitched'' :: (string, path \<times> string) io) =
          (Inr result, [WriteNeuroglancer fname st])
        \<and> map source (layers (input_config st)) =
            [''s3://aind-open-data/SmartSPIM_1_stitched/image_tile_fusing/OMEZarr/Ex_488_Em_525.zarr'',
             ''s3://aind-open-data/SmartSPIM_1_stitched/image_tile_fusing/OMEZarr/Ex_600_Em_620.zarr'']
        \<and> map shader_color (layers (input_config st)) = [''#92ff42'', ''#ed1c24'']"
    by (intro exI conjI)
  with same show ?thesis by (rule conjI)
qed

end
